theory Spec2Isabelle
  imports Main "HOL-Library.AList"
begin

section \<open>Package bind: binding request parameters to struct fields\<close>

text \<open>
  A shallow embedding of the Go package \<^verbatim>\<open>bind\<close>: the coercion function
  \<^verbatim>\<open>setFieldValue\<close>, the field walk \<^verbatim>\<open>forEachField\<close>, the check
  \<^verbatim>\<open>validateRequired\<close> and the three entry points \<^verbatim>\<open>BindForm\<close>,
  \<^verbatim>\<open>BindQuery\<close> and \<^verbatim>\<open>BindJSON\<close>.

  The package works through Go's reflection. The universe of Go types modelled here is
  closed: bool, string, the five signed and five unsigned integer types, the two float
  types, pointers, slices, maps and the empty interface \<^verbatim>\<open>any\<close>. Defined (named) types,
  structs as field types, arrays, channels, functions, complex numbers and
  \<^verbatim>\<open>uintptr\<close> are outside it.
\<close>

subsection \<open>Types and kinds\<close>

datatype IntKind = Int' | Int8 | Int16 | Int32 | Int64

datatype UintKind = Uint | Uint8 | Uint16 | Uint32 | Uint64

datatype FloatKind = Float32 | Float64

text \<open>\<^verbatim>\<open>reflect.Kind\<close>, restricted to the kinds of the modelled types.\<close>

datatype Kind =
    KBool
  | KInt IntKind
  | KUint UintKind
  | KFloat FloatKind
  | KString
  | KPointer
  | KSlice
  | KMap
  | KInterface

text \<open>\<^verbatim>\<open>reflect.Type\<close>: \<open>InterfaceT\<close> is the type \<^verbatim>\<open>any\<close>.\<close>

datatype gtype =
    BoolT
  | StringT
  | IntT IntKind
  | UintT UintKind
  | FloatT FloatKind
  | PointerTo gtype
  | SliceOf gtype
  | MapOf gtype gtype
  | InterfaceT

fun kindOf :: "gtype \<Rightarrow> Kind" where
  "kindOf BoolT = KBool"
| "kindOf StringT = KString"
| "kindOf (IntT k) = KInt k"
| "kindOf (UintT k) = KUint k"
| "kindOf (FloatT k) = KFloat k"
| "kindOf (PointerTo t) = KPointer"
| "kindOf (SliceOf t) = KSlice"
| "kindOf (MapOf k t) = KMap"
| "kindOf InterfaceT = KInterface"

text \<open>
  \<^verbatim>\<open>Type.Elem()\<close> and \<^verbatim>\<open>Type.Key()\<close>. Go panics when the kind has no element
  or key type; the code calls them only behind a test of the kind, so the other
  equations are left out.
\<close>

fun Elem :: "gtype \<Rightarrow> gtype" where
  "Elem (PointerTo t) = t"
| "Elem (SliceOf t) = t"
| "Elem (MapOf k t) = t"

fun Key :: "gtype \<Rightarrow> gtype" where
  "Key (MapOf k t) = k"

subsection \<open>Floating-point values\<close>

text \<open>
  A \<^verbatim>\<open>float64\<close>: \<open>Finite m e\<close> denotes \<open>m * 2 ^ e\<close>. Every finite float64 has this
  form with \<open>\<bar>m\<bar> < 2 ^ 53\<close> and \<open>-1074 \<le> e \<le> 971\<close>.
\<close>

datatype gofloat = Finite int int | NegZero | PosInf | NegInf | NaN

fun is_float64 :: "gofloat \<Rightarrow> bool" where
  "is_float64 (Finite m e) = (\<bar>m\<bar> < 2 ^ 53 \<and> -1074 \<le> e \<and> e \<le> 971)"
| "is_float64 _ = True"

text \<open>The comparison \<^verbatim>\<open>f < 0\<close>.\<close>

fun fnegative :: "gofloat \<Rightarrow> bool" where
  "fnegative (Finite m e) = (m < 0)"
| "fnegative NegInf = True"
| "fnegative _ = False"

text \<open>A float has a fractional part when it is finite and not a whole number.\<close>

fun fractional :: "gofloat \<Rightarrow> bool" where
  "fractional (Finite m e) = (e < 0 \<and> \<not> 2 ^ nat (- e) dvd m)"
| "fractional _ = False"

text \<open>The whole number next to a finite float in the direction of zero.\<close>

fun trunc :: "gofloat \<Rightarrow> int" where
  "trunc (Finite m e) =
     (if 0 \<le> e then m * 2 ^ nat e else sgn m * (\<bar>m\<bar> div 2 ^ nat (- e)))"
| "trunc _ = 0"

subsection \<open>The platform and the standard library\<close>

text \<open>
  What the Go implementation and its standard library decide, and this package does not:
  the width of \<^verbatim>\<open>int\<close> and \<^verbatim>\<open>uint\<close> (32 or 64), \<^verbatim>\<open>strconv.ParseFloat(s, 64)\<close>,
  the rounding conversions \<^verbatim>\<open>float32(f)\<close>, \<^verbatim>\<open>float64(i)\<close> and \<^verbatim>\<open>float64(u)\<close>, and the
  implementation-dependent result of converting to an integer a float that the integer
  type cannot represent. They are parameters of the model.
\<close>

datatype numerr = ErrSyntax | ErrRange

record platform =
  IntSize :: nat
  ParseFloat :: "string \<Rightarrow> numerr + gofloat"
  toFloat32 :: "gofloat \<Rightarrow> gofloat"
  intToFloat :: "int \<Rightarrow> gofloat"
  uintToFloat :: "nat \<Rightarrow> gofloat"
  floatToInt64 :: "gofloat \<Rightarrow> int"
  floatToUint64 :: "gofloat \<Rightarrow> nat"

fun intBits :: "platform \<Rightarrow> IntKind \<Rightarrow> nat" where
  "intBits P Int' = IntSize P"
| "intBits P Int8 = 8"
| "intBits P Int16 = 16"
| "intBits P Int32 = 32"
| "intBits P Int64 = 64"

fun uintBits :: "platform \<Rightarrow> UintKind \<Rightarrow> nat" where
  "uintBits P Uint = IntSize P"
| "uintBits P Uint8 = 8"
| "uintBits P Uint16 = 16"
| "uintBits P Uint32 = 32"
| "uintBits P Uint64 = 64"

text \<open>
  The conversions \<^verbatim>\<open>int64(f)\<close> and \<^verbatim>\<open>uint64(f)\<close>: truncation towards zero when the
  result is representable, the platform's choice otherwise.
\<close>

fun toInt64 :: "platform \<Rightarrow> gofloat \<Rightarrow> int" where
  "toInt64 P (Finite m e) =
     (let t = trunc (Finite m e)
      in if - (2 ^ 63) \<le> t \<and> t < 2 ^ 63 then t else floatToInt64 P (Finite m e))"
| "toInt64 P NegZero = 0"
| "toInt64 P f = floatToInt64 P f"

fun toUint64 :: "platform \<Rightarrow> gofloat \<Rightarrow> nat" where
  "toUint64 P (Finite m e) =
     (let t = trunc (Finite m e)
      in if 0 \<le> t \<and> t < 2 ^ 64 then nat t else floatToUint64 P (Finite m e))"
| "toUint64 P NegZero = 0"
| "toUint64 P f = floatToUint64 P f"

subsection \<open>strconv\<close>

text \<open>
  \<^verbatim>\<open>strconv.ParseBool\<close>, and \<^verbatim>\<open>strconv.ParseUint\<close> and \<^verbatim>\<open>strconv.ParseInt\<close> as the
  code calls them: base 10, bit size 64. A string is a list of bytes.
\<close>

definition ParseBool :: "string \<Rightarrow> numerr + bool" where
  "ParseBool str =
     (if str \<in> set [''1'', ''t'', ''T'', ''TRUE'', ''true'', ''True''] then Inr True
      else if str \<in> set [''0'', ''f'', ''F'', ''FALSE'', ''false'', ''False''] then Inr False
      else Inl ErrSyntax)"

definition maxUint64 :: nat where
  "maxUint64 = 2 ^ 64 - 1"

text \<open>
  The digit loop of \<^verbatim>\<open>ParseUint\<close>, with \<open>n\<close> the value read so far. In base 10 a byte
  that is not a decimal digit is a syntax error. \<open>n * 10\<close> overflows when
  \<open>n \<ge> maxUint64 / 10 + 1\<close>; the sum \<open>n1\<close> is computed in 64 bits.
\<close>

fun parseDigits :: "nat \<Rightarrow> string \<Rightarrow> numerr + nat" where
  "parseDigits n [] = Inr n"
| "parseDigits n (c # cs) =
     (let b = (of_char c :: nat) in
      if \<not> (48 \<le> b \<and> b \<le> 57) then Inl ErrSyntax
      else if n \<ge> maxUint64 div 10 + 1 then Inl ErrRange
      else let n10 = n * 10; n1 = (n10 + (b - 48)) mod 2 ^ 64 in
        if n1 < n10 \<or> n1 > maxUint64 then Inl ErrRange
        else parseDigits n1 cs)"

definition ParseUint :: "string \<Rightarrow> numerr + nat" where
  "ParseUint s = (if s = [] then Inl ErrSyntax else parseDigits 0 s)"

text \<open>
  \<^verbatim>\<open>ParseInt\<close> takes an optional sign off, reads the rest with \<^verbatim>\<open>ParseUint\<close> and
  checks the range: at most \<open>2 ^ 63 - 1\<close>, or \<open>2 ^ 63\<close> behind a minus sign.
\<close>

definition ParseInt :: "string \<Rightarrow> numerr + int" where
  "ParseInt s =
     (case s of
        [] \<Rightarrow> Inl ErrSyntax
      | c # cs \<Rightarrow>
          (let neg = (c = CHR ''-'');
               rest = (if c = CHR ''+'' \<or> c = CHR ''-'' then cs else s)
           in case ParseUint rest of
                Inl e \<Rightarrow> Inl e
              | Inr un \<Rightarrow>
                  if \<not> neg \<and> un \<ge> 2 ^ 63 then Inl ErrRange
                  else if neg \<and> un > 2 ^ 63 then Inl ErrRange
                  else Inr (if neg then - int un else int un)))"

subsection \<open>Values\<close>

text \<open>
  A Go value with its dynamic type, as an \<^verbatim>\<open>any\<close> holds it. \<open>VNil\<close> is the nil
  interface. A pointer, slice or map is \<open>None\<close> when it is nil. A pointer made by
  \<^verbatim>\<open>reflect.New\<close> is fresh, so a non-nil pointer is modelled by the value it points to.
  The entries of a map are listed in the order in which \<^verbatim>\<open>MapKeys\<close> hands out the keys,
  which Go leaves open; a Go map holds each key once.
\<close>

datatype gval =
    VNil
  | VBool bool
  | VString string
  | VInt IntKind int
  | VUint UintKind nat
  | VFloat FloatKind gofloat
  | VPtr gtype "gval option"
  | VSlice gtype "gval list option"
  | VMap gtype gtype "(gval \<times> gval) list option"

text \<open>\<^verbatim>\<open>reflect.TypeOf\<close>; the nil interface has no type.\<close>

fun TypeOf :: "gval \<Rightarrow> gtype" where
  "TypeOf (VBool b) = BoolT"
| "TypeOf (VString s) = StringT"
| "TypeOf (VInt k i) = IntT k"
| "TypeOf (VUint k u) = UintT k"
| "TypeOf (VFloat k f) = FloatT k"
| "TypeOf (VPtr t p) = PointerTo t"
| "TypeOf (VSlice t xs) = SliceOf t"
| "TypeOf (VMap k t m) = MapOf k t"

text \<open>The zero value of a type.\<close>

fun Zero :: "gtype \<Rightarrow> gval" where
  "Zero BoolT = VBool False"
| "Zero StringT = VString []"
| "Zero (IntT k) = VInt k 0"
| "Zero (UintT k) = VUint k 0"
| "Zero (FloatT k) = VFloat k (Finite 0 0)"
| "Zero (PointerTo t) = VPtr t None"
| "Zero (SliceOf t) = VSlice t None"
| "Zero (MapOf k t) = VMap k t None"
| "Zero InterfaceT = VNil"

text \<open>The elements of a slice (\<^verbatim>\<open>rv.Len()\<close>, \<^verbatim>\<open>rv.Index(i).Interface()\<close>) and the
  entries of a map (\<^verbatim>\<open>rv.MapKeys()\<close>, \<^verbatim>\<open>rv.MapIndex(key).Interface()\<close>); a nil slice
  or map has none.\<close>

fun sliceElems :: "gval \<Rightarrow> gval list" where
  "sliceElems (VSlice t (Some xs)) = xs"
| "sliceElems _ = []"

fun mapEntries :: "gval \<Rightarrow> (gval \<times> gval) list" where
  "mapEntries (VMap k t (Some es)) = es"
| "mapEntries _ = []"

subsection \<open>Errors, panics and outcomes\<close>

text \<open>
  The name under which a field is reported: the field's own name, or the name made by
  \<^verbatim>\<open>fmt.Sprintf("%s[%d]", fieldName, i)\<close> for an element and by
  \<^verbatim>\<open>fmt.Sprintf("%s[%v]", fieldName, key)\<close> for a map entry.
\<close>

datatype fieldName = Field string | AtIndex fieldName nat | AtKey fieldName gval

datatype Target = ToBool | ToInt | ToUint | ToFloat

text \<open>One constructor for each \<^verbatim>\<open>fmt.Errorf\<close> of the package, with its arguments.\<close>

datatype error =
    NotSettable fieldName
  | CannotConvert string Target numerr
  | UnsupportedKindForString Kind
  | CannotAssignBool Kind
  | NegativeIntToUint
  | CannotAssignInt Kind
  | CannotAssignUint Kind
  | NegativeFloatToUint
  | CannotAssignFloat Kind
  | MapKeyType gtype gtype
  | MapValueType gtype gtype
  | CannotAssign gtype gtype
  | IsRequired string
  | External string

datatype panic = GivenNil | HowIsThisPresent | SetUnsettable

text \<open>
  A call returns nil (\<open>Ok\<close>), returns an error (\<open>Err\<close>), or panics. \<open>Ok\<close> and \<open>Err\<close>
  carry what the call leaves in the storage it was given.
\<close>

datatype 'a outcome = Ok 'a | Err error 'a | Panic panic

subsection \<open>reflect.Value\<close>

text \<open>
  A \<^verbatim>\<open>reflect.Value\<close> that stands for a variable: its type, whether it can be set
  (\<^verbatim>\<open>CanSet\<close>: addressable and not reached through an unexported field) and what it
  holds.
\<close>

record rvalue =
  Type :: gtype
  CanSet :: bool
  Content :: gval

definition Kind :: "rvalue \<Rightarrow> Kind" where
  "Kind fv = kindOf (Type fv)"

text \<open>\<^verbatim>\<open>reflect.New(t).Elem()\<close>: a fresh, settable variable holding the zero value.\<close>

definition NewElem :: "gtype \<Rightarrow> rvalue" where
  "NewElem t = \<lparr>Type = t, CanSet = True, Content = Zero t\<rparr>"

text \<open>
  The setters. \<^verbatim>\<open>SetInt\<close> and \<^verbatim>\<open>SetUint\<close> store a 64-bit argument converted to the
  type of the variable, which keeps the low bits; \<^verbatim>\<open>SetFloat\<close> rounds to
  \<^verbatim>\<open>float32\<close> for that kind. The code calls them behind \<^verbatim>\<open>CanSet\<close> and a test of
  the kind.
\<close>

fun SetInt :: "platform \<Rightarrow> rvalue \<Rightarrow> int \<Rightarrow> rvalue" where
  "SetInt P fv x =
     (case Type fv of
        IntT k \<Rightarrow> fv\<lparr>Content := VInt k (signed_take_bit (intBits P k - 1) x)\<rparr>)"

fun SetUint :: "platform \<Rightarrow> rvalue \<Rightarrow> nat \<Rightarrow> rvalue" where
  "SetUint P fv x =
     (case Type fv of
        UintT k \<Rightarrow> fv\<lparr>Content := VUint k (take_bit (uintBits P k) x)\<rparr>)"

fun SetFloat :: "platform \<Rightarrow> rvalue \<Rightarrow> gofloat \<Rightarrow> rvalue" where
  "SetFloat P fv f =
     (case Type fv of
        FloatT Float32 \<Rightarrow> fv\<lparr>Content := VFloat Float32 (toFloat32 P f)\<rparr>
      | FloatT Float64 \<Rightarrow> fv\<lparr>Content := VFloat Float64 f\<rparr>)"

text \<open>\<^verbatim>\<open>fv.Set(x)\<close> panics when \<^verbatim>\<open>fv.CanSet()\<close> is false.\<close>

definition Set :: "rvalue \<Rightarrow> gval \<Rightarrow> rvalue outcome" where
  "Set fv x = (if CanSet fv then Ok (fv\<lparr>Content := x\<rparr>) else Panic SetUnsettable)"

subsection \<open>setFieldValue\<close>

text \<open>
  The arms of the type switch \<^verbatim>\<open>switch v := value.(type)\<close>, one definition for each.
  They run behind the \<^verbatim>\<open>CanSet\<close> test. The arm for a string: the inner switch over
  the kind of the destination.
\<close>

definition fromString :: "platform \<Rightarrow> rvalue \<Rightarrow> string \<Rightarrow> rvalue outcome" where
  "fromString P fv str =
     (case Type fv of
        StringT \<Rightarrow> Ok (fv\<lparr>Content := VString str\<rparr>)
      | BoolT \<Rightarrow>
          (case ParseBool str of
             Inl err \<Rightarrow> Err (CannotConvert str ToBool err) fv
           | Inr b \<Rightarrow> Ok (fv\<lparr>Content := VBool b\<rparr>))
      | IntT k \<Rightarrow>
          (case ParseInt str of
             Inl err \<Rightarrow> Err (CannotConvert str ToInt err) fv
           | Inr i \<Rightarrow> Ok (SetInt P fv i))
      | UintT k \<Rightarrow>
          (case ParseUint str of
             Inl err \<Rightarrow> Err (CannotConvert str ToUint err) fv
           | Inr u \<Rightarrow> Ok (SetUint P fv u))
      | FloatT k \<Rightarrow>
          (case ParseFloat P str of
             Inl err \<Rightarrow> Err (CannotConvert str ToFloat err) fv
           | Inr f \<Rightarrow> Ok (SetFloat P fv f))
      | _ \<Rightarrow> Err (UnsupportedKindForString (Kind fv)) fv)"

definition fromBool :: "rvalue \<Rightarrow> bool \<Rightarrow> rvalue outcome" where
  "fromBool fv v =
     (if Kind fv = KBool then Ok (fv\<lparr>Content := VBool v\<rparr>)
      else Err (CannotAssignBool (Kind fv)) fv)"

text \<open>
  The arm for the signed integer types, with \<open>i\<close> the source as an \<^verbatim>\<open>int64\<close>
  (\<^verbatim>\<open>reflect.ValueOf(v).Int()\<close>). \<^verbatim>\<open>uint64(i)\<close> is \<open>i\<close> itself for \<open>i \<ge> 0\<close>.
\<close>

definition fromInt :: "platform \<Rightarrow> rvalue \<Rightarrow> int \<Rightarrow> rvalue outcome" where
  "fromInt P fv i =
     (case Type fv of
        IntT k \<Rightarrow> Ok (SetInt P fv i)
      | FloatT k \<Rightarrow> Ok (SetFloat P fv (intToFloat P i))
      | UintT k \<Rightarrow>
          if i < 0 then Err NegativeIntToUint fv
          else Ok (SetUint P fv (nat i))
      | _ \<Rightarrow> Err (CannotAssignInt (Kind fv)) fv)"

text \<open>
  The arm for the unsigned integer types, with \<open>u\<close> the source as a \<^verbatim>\<open>uint64\<close>.
  \<^verbatim>\<open>int64(u)\<close> reads the same 64 bits as a signed number.
\<close>

definition fromUint :: "platform \<Rightarrow> rvalue \<Rightarrow> nat \<Rightarrow> rvalue outcome" where
  "fromUint P fv u =
     (case Type fv of
        UintT k \<Rightarrow> Ok (SetUint P fv u)
      | IntT k \<Rightarrow> Ok (SetInt P fv (signed_take_bit 63 (int u)))
      | FloatT k \<Rightarrow> Ok (SetFloat P fv (uintToFloat P u))
      | _ \<Rightarrow> Err (CannotAssignUint (Kind fv)) fv)"

text \<open>The arm for the float types, with \<open>f\<close> the source as a \<^verbatim>\<open>float64\<close>.\<close>

definition fromFloat :: "platform \<Rightarrow> rvalue \<Rightarrow> gofloat \<Rightarrow> rvalue outcome" where
  "fromFloat P fv f =
     (case Type fv of
        FloatT k \<Rightarrow> Ok (SetFloat P fv f)
      | IntT k \<Rightarrow> Ok (SetInt P fv (toInt64 P f))
      | UintT k \<Rightarrow>
          if fnegative f then Err NegativeFloatToUint fv
          else Ok (SetUint P fv (toUint64 P f))
      | _ \<Rightarrow> Err (CannotAssignFloat (Kind fv)) fv)"

text \<open>
  The loop over the elements of the source slice: \<open>f i x\<close> coerces element \<open>x\<close> into
  \<^verbatim>\<open>slice.Index(i)\<close>; the first element that does not return nil ends the loop.
  The result lists what the elements of the new slice hold.
\<close>

fun rangeSlice :: "(nat \<Rightarrow> gval \<Rightarrow> rvalue outcome) \<Rightarrow> nat \<Rightarrow> gval list \<Rightarrow> gval list outcome" where
  "rangeSlice f i [] = Ok []"
| "rangeSlice f i (x # xs) =
     (case f i x of
        Panic p \<Rightarrow> Panic p
      | Err err _ \<Rightarrow> Err err []
      | Ok el \<Rightarrow>
          (case rangeSlice f (Suc i) xs of
             Panic p \<Rightarrow> Panic p
           | Err err _ \<Rightarrow> Err err []
           | Ok ys \<Rightarrow> Ok (Content el # ys)))"

text \<open>
  The loop over the keys of the source map: \<open>f key x\<close> coerces the value \<open>x\<close> under
  \<open>key\<close> into a fresh variable \<^verbatim>\<open>val\<close>, and \<^verbatim>\<open>mp.SetMapIndex(key, val)\<close> stores it.
\<close>

fun rangeMap :: "(gval \<Rightarrow> gval \<Rightarrow> rvalue outcome) \<Rightarrow> (gval \<times> gval) list \<Rightarrow> (gval \<times> gval) list outcome" where
  "rangeMap f [] = Ok []"
| "rangeMap f ((key, x) # es) =
     (case f key x of
        Panic p \<Rightarrow> Panic p
      | Err err _ \<Rightarrow> Err err []
      | Ok val \<Rightarrow>
          (case rangeMap f es of
             Panic p \<Rightarrow> Panic p
           | Err err _ \<Rightarrow> Err err []
           | Ok mp \<Rightarrow> Ok ((key, Content val) # mp)))"

text \<open>
  \<^verbatim>\<open>AssignableTo\<close> and \<^verbatim>\<open>ConvertibleTo\<close> of \<^verbatim>\<open>reflect.Type\<close>, on the modelled types.
  Without defined types, a type is assignable to itself and to \<^verbatim>\<open>any\<close>. The fallback
  is reached by sources that are pointers, slices or maps only (every arm of the type
  switch returns); of these, a \<^verbatim>\<open>[]uint8\<close> and a \<^verbatim>\<open>[]int32\<close> convert to string, and
  nothing else converts that is not assignable.
\<close>

definition AssignableTo :: "gtype \<Rightarrow> gtype \<Rightarrow> bool" where
  "AssignableTo V T = (V = T \<or> T = InterfaceT)"

definition ConvertibleTo :: "gtype \<Rightarrow> gtype \<Rightarrow> bool" where
  "ConvertibleTo V T =
     (AssignableTo V T \<or> (T = StringT \<and> (V = SliceOf (UintT Uint8) \<or> V = SliceOf (IntT Int32))))"

text \<open>
  The UTF-8 encoding of a rune; a rune that is no Unicode scalar value is encoded as
  U+FFFD.
\<close>

definition encodeRune :: "int \<Rightarrow> string" where
  "encodeRune r =
     (let n = nat r in
      if r < 0 \<or> r > 1114111 \<or> (55296 \<le> r \<and> r \<le> 57343) then [char_of (239::nat), char_of (191::nat), char_of (189::nat)]
      else if r \<le> 127 then [char_of n]
      else if r \<le> 2047 then [char_of (192 + n div 64), char_of (128 + n mod 64)]
      else if r \<le> 65535 then
        [char_of (224 + n div 4096), char_of (128 + n div 64 mod 64), char_of (128 + n mod 64)]
      else
        [char_of (240 + n div 262144), char_of (128 + n div 4096 mod 64),
         char_of (128 + n div 64 mod 64), char_of (128 + n mod 64)])"

fun byteOf :: "gval \<Rightarrow> string" where
  "byteOf (VUint k u) = [char_of u]"
| "byteOf _ = []"

fun runeOf :: "gval \<Rightarrow> string" where
  "runeOf (VInt k r) = encodeRune r"
| "runeOf _ = []"

text \<open>\<^verbatim>\<open>rv.Convert(t)\<close> where the fallback calls it.\<close>

definition Convert :: "gval \<Rightarrow> gtype \<Rightarrow> gval" where
  "Convert value T =
     (if AssignableTo (TypeOf value) T then value
      else if TypeOf value = SliceOf (UintT Uint8) then VString (concat (map byteOf (sliceElems value)))
      else VString (concat (map runeOf (sliceElems value))))"

text \<open>The kind of the source, \<^verbatim>\<open>rv.Kind()\<close> for \<^verbatim>\<open>rv := reflect.ValueOf(value)\<close>.\<close>

definition rvKind :: "gval \<Rightarrow> Kind" where
  "rvKind value = kindOf (TypeOf value)"

text \<open>
  \<^verbatim>\<open>setFieldValue(fieldName, fv, value)\<close> writes \<open>value\<close> to \<open>fv\<close>. The result carries
  \<open>fv\<close> as the call leaves it.
\<close>

function setFieldValue :: "platform \<Rightarrow> fieldName \<Rightarrow> rvalue \<Rightarrow> gval \<Rightarrow> rvalue outcome" where
  "setFieldValue P fieldName fv value =
     (if value = VNil then Panic GivenNil
      else if Kind fv = KPointer then
        (case setFieldValue P fieldName (NewElem (Elem (Type fv))) value of
           Panic p \<Rightarrow> Panic p
         | Err err _ \<Rightarrow> Err err fv
         | Ok ptrElem \<Rightarrow> Set fv (VPtr (Elem (Type fv)) (Some (Content ptrElem))))
      else if \<not> CanSet fv then Err (NotSettable fieldName) fv
      else
        (case value of
           VString str \<Rightarrow> fromString P fv str
         | VBool v \<Rightarrow> fromBool fv v
         | VInt k i \<Rightarrow> fromInt P fv i
         | VUint k u \<Rightarrow> fromUint P fv u
         | VFloat k f \<Rightarrow> fromFloat P fv f
         | _ \<Rightarrow>
            if Kind fv = KSlice \<and> rvKind value = KSlice then
              (case rangeSlice
                      (\<lambda>i x. setFieldValue P (AtIndex fieldName i) (NewElem (Elem (Type fv))) x)
                      0 (sliceElems value) of
                 Panic p \<Rightarrow> Panic p
               | Err err _ \<Rightarrow> Err err fv
               | Ok slice \<Rightarrow> Ok (fv\<lparr>Content := VSlice (Elem (Type fv)) (Some slice)\<rparr>))
            else if Kind fv = KMap \<and> rvKind value = KMap then
              (if Key (Type fv) \<noteq> Key (TypeOf value) then
                 Err (MapKeyType (Key (TypeOf value)) (Key (Type fv))) fv
               else if Elem (Type fv) \<noteq> Elem (TypeOf value) then
                 Err (MapValueType (Elem (TypeOf value)) (Elem (Type fv))) fv
               else
                 (case rangeMap
                         (\<lambda>key x. setFieldValue P (AtKey fieldName key) (NewElem (Elem (Type fv))) x)
                         (mapEntries value) of
                    Panic p \<Rightarrow> Panic p
                  | Err err _ \<Rightarrow> Err err fv
                  | Ok mp \<Rightarrow> Ok (fv\<lparr>Content := VMap (Key (Type fv)) (Elem (Type fv)) (Some mp)\<rparr>)))
            else if AssignableTo (TypeOf value) (Type fv) then Ok (fv\<lparr>Content := value\<rparr>)
            else if ConvertibleTo (TypeOf value) (Type fv) then
              Ok (fv\<lparr>Content := Convert value (Type fv)\<rparr>)
            else Err (CannotAssign (TypeOf value) (Type fv)) fv))"
  by pat_completeness auto
termination
  by (relation "measure (\<lambda>(P, fieldName, fv, value). size (Type fv))")
     (auto simp: Kind_def NewElem_def elim!: kindOf.elims)

subsection \<open>Structs and requests\<close>

text \<open>
  \<^verbatim>\<open>reflect.StructField\<close>: the name of the field, its type and its tag, given as the
  list of its \<^verbatim>\<open>key:"value"\<close> pairs. \<open>Exported\<close> says whether the field is exported
  (\<^verbatim>\<open>PkgPath\<close> is empty), which is when the field of an addressable struct can be set.
\<close>

record StructField =
  Name :: string
  Typ :: gtype
  Tag :: "(string \<times> string) list"
  Exported :: bool

text \<open>\<^verbatim>\<open>Tag.Get(key)\<close>: the value under the key, or the empty string.\<close>

definition Get :: "(string \<times> string) list \<Rightarrow> string \<Rightarrow> string" where
  "Get tag key = (case map_of tag key of None \<Rightarrow> [] | Some v \<Rightarrow> v)"

text \<open>
  The struct that \<^verbatim>\<open>obj\<close> points to: its fields in the order of declaration, each with
  what it holds. \<^verbatim>\<open>v.Field(i)\<close> is the variable of field \<open>i\<close>.
\<close>

type_synonym struct = "(StructField \<times> gval) list"

definition FieldValue :: "StructField \<times> gval \<Rightarrow> rvalue" where
  "FieldValue fc = \<lparr>Type = Typ (fst fc), CanSet = Exported (fst fc), Content = snd fc\<rparr>"

text \<open>
  A JSON document, and the Go value that \<^verbatim>\<open>encoding/json\<close> decodes it to when the
  destination is an \<^verbatim>\<open>any\<close>: nil, \<^verbatim>\<open>bool\<close>, \<^verbatim>\<open>float64\<close>, \<^verbatim>\<open>string\<close>,
  \<^verbatim>\<open>[]any\<close> or \<^verbatim>\<open>map[string]any\<close>. A number carries the float64 it is read as.
  Of two members with one name, the later one stays.
\<close>

datatype json =
    JNull
  | JBool bool
  | JNumber gofloat
  | JString string
  | JArray "json list"
  | JObject "(string \<times> json) list"

fun decodeAny :: "json \<Rightarrow> gval" where
  "decodeAny JNull = VNil"
| "decodeAny (JBool b) = VBool b"
| "decodeAny (JNumber f) = VFloat Float64 f"
| "decodeAny (JString s) = VString s"
| "decodeAny (JArray xs) = VSlice InterfaceT (Some (map decodeAny xs))"
| "decodeAny (JObject ms) =
     VMap StringT InterfaceT
       (Some (AList.clearjunk (rev (map (\<lambda>m. (VString (fst m), decodeAny (snd m))) ms))))"

text \<open>
  What the package reads of a \<^verbatim>\<open>*http.Request\<close>: the error of \<^verbatim>\<open>r.ParseForm()\<close>, if
  any, and \<^verbatim>\<open>r.Form\<close> after it; \<^verbatim>\<open>r.URL.Query()\<close>; and the body, as the JSON document
  it holds or the error of the decoder when it holds none.
\<close>

record Request =
  ParseForm :: "error option"
  Form :: "string \<rightharpoonup> string list"
  Query :: "string \<rightharpoonup> string list"
  Body :: "error + json"

text \<open>
  \<^verbatim>\<open>json.NewDecoder(r.Body).Decode(&data)\<close> for \<^verbatim>\<open>var data map[string]any\<close>: an
  object fills the map, \<^verbatim>\<open>null\<close> leaves it nil, and any other document is an error.
\<close>

definition Decode :: "error + json \<Rightarrow> error + (string \<rightharpoonup> gval)" where
  "Decode body =
     (case body of
        Inl err \<Rightarrow> Inl err
      | Inr (JObject ms) \<Rightarrow> Inr (map_of (rev (map (\<lambda>m. (fst m, decodeAny (snd m))) ms)))
      | Inr JNull \<Rightarrow> Inr Map.empty
      | Inr _ \<Rightarrow> Inl (External ''json: cannot unmarshal into Go value of type map[string]interface {}''))"

subsection \<open>validateRequired and forEachField\<close>

text \<open>
  \<^verbatim>\<open>validateRequired(writtenFields, obj)\<close>: the loop over the fields, from the field
  it has reached.
\<close>

fun validateRequired :: "string set \<Rightarrow> struct \<Rightarrow> error option" where
  "validateRequired writtenFields [] = None"
| "validateRequired writtenFields ((f, c) # rest) =
     (if Get (Tag f) ''binding'' \<noteq> ''required'' then validateRequired writtenFields rest
      else if Name f \<notin> writtenFields then Some (IsRequired (Name f))
      else validateRequired writtenFields rest)"

text \<open>The name a field goes by: its tag under \<open>tagKey\<close>, or its own name.\<close>

definition tagName :: "string \<Rightarrow> StructField \<Rightarrow> string" where
  "tagName tagKey f = (if Get (Tag f) tagKey = [] then Name f else Get (Tag f) tagKey)"

text \<open>
  \<^verbatim>\<open>forEachField(obj, tagKey, fn)\<close>. The callbacks of the package write to the field and
  to the set \<^verbatim>\<open>writtenFields\<close> they close over; here \<open>fn\<close> takes the set and returns it
  with the field. The result carries the struct and the set as the walk leaves them.
\<close>

fun forEachField ::
  "struct \<Rightarrow> string \<Rightarrow> (StructField \<Rightarrow> rvalue \<Rightarrow> string \<Rightarrow> 'w \<Rightarrow> (rvalue \<times> 'w) outcome) \<Rightarrow> 'w
    \<Rightarrow> (struct \<times> 'w) outcome" where
  "forEachField [] tagKey fn w = Ok ([], w)"
| "forEachField ((f, c) # rest) tagKey fn w =
     (case fn f (FieldValue (f, c)) (tagName tagKey f) w of
        Panic p \<Rightarrow> Panic p
      | Err err (fv, w') \<Rightarrow> Err err ((f, Content fv) # rest, w')
      | Ok (fv, w') \<Rightarrow>
          (case forEachField rest tagKey fn w' of
             Panic p \<Rightarrow> Panic p
           | Err err (rest', w'') \<Rightarrow> Err err ((f, Content fv) # rest', w'')
           | Ok (rest', w'') \<Rightarrow> Ok ((f, Content fv) # rest', w'')))"

subsection \<open>BindForm, BindQuery and BindJSON\<close>

text \<open>
  What the three callbacks share once they hold the value of a field: the call of
  \<^verbatim>\<open>setFieldValue(field.Name, fv, value)\<close> and the entry in \<^verbatim>\<open>writtenFields\<close>.
\<close>

definition writeField ::
  "platform \<Rightarrow> StructField \<Rightarrow> rvalue \<Rightarrow> gval \<Rightarrow> string set \<Rightarrow> (rvalue \<times> string set) outcome" where
  "writeField P field fv value writtenFields =
     (case setFieldValue P (Field (Name field)) fv value of
        Panic p \<Rightarrow> Panic p
      | Err err fv' \<Rightarrow> Err err (fv', writtenFields)
      | Ok fv' \<Rightarrow> Ok (fv', insert (Name field) writtenFields))"

text \<open>The callback of \<^verbatim>\<open>BindForm\<close>.\<close>

definition formField ::
  "platform \<Rightarrow> (string \<rightharpoonup> string list) \<Rightarrow> StructField \<Rightarrow> rvalue \<Rightarrow> string \<Rightarrow> string set
    \<Rightarrow> (rvalue \<times> string set) outcome" where
  "formField P form field fv tag writtenFields =
     (case form tag of
        None \<Rightarrow> Ok (fv, writtenFields)
      | Some values \<Rightarrow>
          if length values = 0 then Panic HowIsThisPresent
          else writeField P field fv (VString (values ! 0)) writtenFields)"

text \<open>
  The callback of \<^verbatim>\<open>BindQuery\<close>: \<^verbatim>\<open>q.Get(tag)\<close> is the first value under the key, or
  the empty string when there is none, and \<^verbatim>\<open>q.Has(tag)\<close> says whether the key is there.
\<close>

definition queryGet :: "(string \<rightharpoonup> string list) \<Rightarrow> string \<Rightarrow> string" where
  "queryGet q key =
     (case q key of
        None \<Rightarrow> []
      | Some vs \<Rightarrow> if length vs = 0 then [] else vs ! 0)"

definition queryHas :: "(string \<rightharpoonup> string list) \<Rightarrow> string \<Rightarrow> bool" where
  "queryHas q key = (q key \<noteq> None)"

definition queryField ::
  "platform \<Rightarrow> (string \<rightharpoonup> string list) \<Rightarrow> StructField \<Rightarrow> rvalue \<Rightarrow> string \<Rightarrow> string set
    \<Rightarrow> (rvalue \<times> string set) outcome" where
  "queryField P q field fv tag writtenFields =
     (if \<not> queryHas q tag then Ok (fv, writtenFields)
      else writeField P field fv (VString (queryGet q tag)) writtenFields)"

text \<open>The callback of \<^verbatim>\<open>BindJSON\<close>.\<close>

definition jsonField ::
  "platform \<Rightarrow> (string \<rightharpoonup> gval) \<Rightarrow> StructField \<Rightarrow> rvalue \<Rightarrow> string \<Rightarrow> string set
    \<Rightarrow> (rvalue \<times> string set) outcome" where
  "jsonField P data field fv tag writtenFields =
     (case data tag of
        None \<Rightarrow> Ok (fv, writtenFields)
      | Some value \<Rightarrow> writeField P field fv value writtenFields)"

text \<open>
  What follows the walk in each of the three functions: its error is returned, and
  \<^verbatim>\<open>validateRequired\<close> runs when there is none.
\<close>

definition afterWalk :: "(struct \<times> string set) outcome \<Rightarrow> struct outcome" where
  "afterWalk walk =
     (case walk of
        Panic p \<Rightarrow> Panic p
      | Err err (obj, writtenFields) \<Rightarrow> Err err obj
      | Ok (obj, writtenFields) \<Rightarrow>
          (case validateRequired writtenFields obj of
             Some err \<Rightarrow> Err err obj
           | None \<Rightarrow> Ok obj))"

definition BindForm :: "platform \<Rightarrow> Request \<Rightarrow> struct \<Rightarrow> struct outcome" where
  "BindForm P r obj =
     (case ParseForm r of
        Some err \<Rightarrow> Err err obj
      | None \<Rightarrow> afterWalk (forEachField obj ''form'' (formField P (Form r)) {}))"

definition BindQuery :: "platform \<Rightarrow> Request \<Rightarrow> struct \<Rightarrow> struct outcome" where
  "BindQuery P r obj = afterWalk (forEachField obj ''query'' (queryField P (Query r)) {})"

definition BindJSON :: "platform \<Rightarrow> Request \<Rightarrow> struct \<Rightarrow> struct outcome" where
  "BindJSON P r obj =
     (case Decode (Body r) of
        Inl err \<Rightarrow> Err err obj
      | Inr data \<Rightarrow> afterWalk (forEachField obj ''json'' (jsonField P data) {}))"

subsection \<open>Kinds of errors and of values\<close>

text \<open>
  The errors that \<^verbatim>\<open>setFieldValue\<close> makes, as opposed to the error of
  \<^verbatim>\<open>validateRequired\<close> and the errors of \<^verbatim>\<open>net/http\<close> and \<^verbatim>\<open>encoding/json\<close>.
\<close>

fun coercionError :: "error \<Rightarrow> bool" where
  "coercionError (IsRequired n) = False"
| "coercionError (External s) = False"
| "coercionError _ = True"

text \<open>
  The errors that only the arms of the type switch for \<^verbatim>\<open>int, int8, ...\<close> and for
  \<^verbatim>\<open>uint, uint8, ...\<close> make.
\<close>

fun intSourceError :: "error \<Rightarrow> bool" where
  "intSourceError NegativeIntToUint = True"
| "intSourceError (CannotAssignInt k) = True"
| "intSourceError (CannotAssignUint k) = True"
| "intSourceError _ = False"

text \<open>
  A value that is no signed or unsigned integer and holds none, at any depth: the values
  on which the arms of the type switch for \<^verbatim>\<open>int, int8, ...\<close> and for
  \<^verbatim>\<open>uint, uint8, ...\<close> are never entered, neither by the call itself nor by the calls
  it makes for the elements.
\<close>

fun intFree :: "gval \<Rightarrow> bool" where
  "intFree (VInt k i) = False"
| "intFree (VUint k u) = False"
| "intFree (VPtr t p) = (case p of None \<Rightarrow> True | Some v \<Rightarrow> intFree v)"
| "intFree (VSlice t xs) = (case xs of None \<Rightarrow> True | Some l \<Rightarrow> list_all intFree l)"
| "intFree (VMap k t m) =
     (case m of None \<Rightarrow> True | Some es \<Rightarrow> list_all (\<lambda>e. intFree (fst e) \<and> intFree (snd e)) es)"
| "intFree _ = True"

subsection \<open>The result of a call on another content\<close>

text \<open>
  \<open>rebase fv r\<close> is the outcome \<open>r\<close> of a call with a destination of the type and
  settability of \<open>fv\<close>, read for \<open>fv\<close>: the same panic or error, or \<open>fv\<close> holding what
  the call has written. It serves to state that the former content of a destination has
  no part in a call.
\<close>

definition rebase :: "rvalue \<Rightarrow> rvalue outcome \<Rightarrow> rvalue outcome" where
  "rebase fv r =
     (case r of
        Panic p \<Rightarrow> Panic p
      | Err e _ \<Rightarrow> Err e fv
      | Ok x \<Rightarrow> Ok (fv\<lparr>Content := Content x\<rparr>))"

subsection \<open>A platform for the examples\<close>

text \<open>
  A 64-bit platform, for the examples below. None of them reaches the float operations
  of the platform, which are given here for whole numbers of small size only: there
  \<^verbatim>\<open>float64(i)\<close> is exact, and so is \<^verbatim>\<open>float32(f)\<close>. \<^verbatim>\<open>ParseFloat\<close> is left
  without any accepted input, and a float out of range converts to the number that
  amd64 gives.
\<close>

definition examplePlatform :: platform where
  "examplePlatform =
     \<lparr>IntSize = 64,
      ParseFloat = (\<lambda>s. Inl ErrSyntax),
      toFloat32 = (\<lambda>f. f),
      intToFloat = (\<lambda>i. Finite i 0),
      uintToFloat = (\<lambda>u. Finite (int u) 0),
      floatToInt64 = (\<lambda>f. - (2 ^ 63)),
      floatToUint64 = (\<lambda>f. 2 ^ 63)\<rparr>"

section \<open>Properties of setFieldValue\<close>

declare setFieldValue.simps [simp del]

lemmas arm_defs = fromString_def fromBool_def fromInt_def fromUint_def fromFloat_def

lemmas eval_defs = setFieldValue.simps Kind_def rvKind_def NewElem_def Set_def arm_defs
  ParseInt_def ParseUint_def ParseBool_def maxUint64_def AssignableTo_def ConvertibleTo_def

text \<open>An arm of the type switch that returns an error has not written to \<open>fv\<close>.\<close>

lemma arm_Err:
  "fromString P fv s = Err e fv' \<Longrightarrow> fv' = fv"
  "fromBool fv b = Err e fv' \<Longrightarrow> fv' = fv"
  "fromInt P fv i = Err e fv' \<Longrightarrow> fv' = fv"
  "fromUint P fv u = Err e fv' \<Longrightarrow> fv' = fv"
  "fromFloat P fv f = Err e fv' \<Longrightarrow> fv' = fv"
  by (auto simp: arm_defs split: gtype.splits sum.splits if_splits)

text \<open>Whenever \<^verbatim>\<open>setFieldValue\<close> returns an error, \<open>fv\<close> holds what it held before.\<close>

lemma Err_unchanged: "setFieldValue P fieldName fv value = Err e fv' \<Longrightarrow> fv' = fv"
  apply (subst (asm) setFieldValue.simps)
  apply (auto simp: Set_def split: if_splits outcome.splits gval.splits dest: arm_Err)
  done

lemma ParseInt_range: "ParseInt s = Inr i \<Longrightarrow> - (2 ^ 63) \<le> i \<and> i < 2 ^ 63"
  by (auto simp: ParseInt_def Let_def split: list.splits sum.splits if_splits)

text \<open>
  Whenever \<^verbatim>\<open>setFieldValue\<close> returns nil, \<open>fv\<close> has its type and its settability, and a
  new content.
\<close>

lemma arm_Ok:
  "fromString P fv s = Ok fv' \<Longrightarrow> fv' = fv\<lparr>Content := Content fv'\<rparr>"
  "fromBool fv b = Ok fv' \<Longrightarrow> fv' = fv\<lparr>Content := Content fv'\<rparr>"
  "fromInt P fv i = Ok fv' \<Longrightarrow> fv' = fv\<lparr>Content := Content fv'\<rparr>"
  "fromUint P fv u = Ok fv' \<Longrightarrow> fv' = fv\<lparr>Content := Content fv'\<rparr>"
  "fromFloat P fv f = Ok fv' \<Longrightarrow> fv' = fv\<lparr>Content := Content fv'\<rparr>"
  by (auto simp: arm_defs split: gtype.splits sum.splits if_splits FloatKind.splits)

lemma Ok_shape: "setFieldValue P fieldName fv value = Ok fv' \<Longrightarrow> fv' = fv\<lparr>Content := Content fv'\<rparr>"
  apply (subst (asm) setFieldValue.simps)
  apply (auto simp: Set_def split: if_splits outcome.splits gval.splits dest: arm_Ok)
  done

text \<open>What \<open>fv\<close> holds before the call has no part in the outcome.\<close>

lemma arm_rebase:
  "fromString P (fv\<lparr>Content := c\<rparr>) s = rebase (fv\<lparr>Content := c\<rparr>) (fromString P fv s)"
  "fromBool (fv\<lparr>Content := c\<rparr>) b = rebase (fv\<lparr>Content := c\<rparr>) (fromBool fv b)"
  "fromInt P (fv\<lparr>Content := c\<rparr>) i = rebase (fv\<lparr>Content := c\<rparr>) (fromInt P fv i)"
  "fromUint P (fv\<lparr>Content := c\<rparr>) u = rebase (fv\<lparr>Content := c\<rparr>) (fromUint P fv u)"
  "fromFloat P (fv\<lparr>Content := c\<rparr>) f = rebase (fv\<lparr>Content := c\<rparr>) (fromFloat P fv f)"
  by (auto simp: arm_defs rebase_def Kind_def split: gtype.splits sum.splits if_splits FloatKind.splits)

lemma content_irrelevant:
  "setFieldValue P fieldName (fv\<lparr>Content := c\<rparr>) value
     = rebase (fv\<lparr>Content := c\<rparr>) (setFieldValue P fieldName fv value)"
proof -
  note unf = setFieldValue.simps [of P fieldName "fv\<lparr>Content := c\<rparr>" "value"]
             setFieldValue.simps [of P fieldName fv "value"]
  show ?thesis
  proof (cases "value = VNil")
    case True
    then show ?thesis unfolding unf by (simp add: rebase_def)
  next
    case notnil: False
    show ?thesis
    proof (cases "Kind fv = KPointer")
      case True
      then show ?thesis using notnil unfolding unf
        by (simp add: rebase_def Kind_def Set_def split: outcome.splits)
    next
      case notptr: False
      show ?thesis
      proof (cases "CanSet fv")
        case False
        then show ?thesis using notnil notptr unfolding unf by (simp add: rebase_def Kind_def)
      next
        case True
        then show ?thesis using notnil notptr unfolding unf
          by (cases "value") (simp_all add: Kind_def arm_rebase, simp_all add: rebase_def split: outcome.splits)
      qed
    qed
  qed
qed

text \<open>
  The loops. When every element is coerced the loop hands out what the new elements hold;
  the first element that returns an error ends the loop with that error.
\<close>

lemma rangeSlice_Ok:
  "(\<forall>j<length xs. \<exists>r. f (i + j) (xs ! j) = Ok r) \<Longrightarrow>
   \<exists>ys. length ys = length xs \<and> (\<forall>j<length xs. \<exists>r. f (i + j) (xs ! j) = Ok r \<and> Content r = ys ! j)
        \<and> rangeSlice f i xs = Ok ys"
proof (induction xs arbitrary: i)
  case Nil
  then show ?case by simp
next
  case (Cons x xs)
  from Cons.prems [rule_format, of 0] obtain r where r: "f i x = Ok r" by auto
  have "\<forall>j<length xs. \<exists>r. f (Suc i + j) (xs ! j) = Ok r"
  proof (intro allI impI)
    fix j assume "j < length xs"
    then show "\<exists>r. f (Suc i + j) (xs ! j) = Ok r"
      using Cons.prems [rule_format, of "Suc j"] by simp
  qed
  from Cons.IH [OF this] obtain ys where ys: "length ys = length xs"
    "\<forall>j<length xs. \<exists>r. f (Suc i + j) (xs ! j) = Ok r \<and> Content r = ys ! j"
    "rangeSlice f (Suc i) xs = Ok ys" by blast
  have "\<forall>j<length (x # xs). \<exists>q. f (i + j) ((x # xs) ! j) = Ok q \<and> Content q = (Content r # ys) ! j"
  proof (intro allI impI)
    fix j assume j: "j < length (x # xs)"
    show "\<exists>q. f (i + j) ((x # xs) ! j) = Ok q \<and> Content q = (Content r # ys) ! j"
    proof (cases j)
      case 0
      then show ?thesis using r by simp
    next
      case (Suc j')
      then show ?thesis using ys(2) j by simp
    qed
  qed
  moreover have "rangeSlice f i (x # xs) = Ok (Content r # ys)"
    using r ys(3) by simp
  moreover have "length (Content r # ys) = length (x # xs)" using ys(1) by simp
  ultimately show ?case by blast
qed

lemma rangeSlice_Err:
  "m < length xs \<Longrightarrow> (\<forall>j<m. \<exists>r. f (i + j) (xs ! j) = Ok r) \<Longrightarrow> f (i + m) (xs ! m) = Err e r'
    \<Longrightarrow> rangeSlice f i xs = Err e []"
proof (induction xs arbitrary: i m)
  case Nil
  then show ?case by simp
next
  case (Cons x xs)
  show ?case
  proof (cases m)
    case 0
    then show ?thesis using Cons.prems by simp
  next
    case (Suc m')
    from Cons.prems(2) [rule_format, of 0] Suc obtain r where r: "f i x = Ok r" by auto
    have a: "m' < length xs" using Cons.prems(1) Suc by simp
    have b: "\<forall>j<m'. \<exists>r. f (Suc i + j) (xs ! j) = Ok r"
    proof (intro allI impI)
      fix j assume "j < m'"
      then show "\<exists>r. f (Suc i + j) (xs ! j) = Ok r"
        using Cons.prems(2) [rule_format, of "Suc j"] Suc by simp
    qed
    have c: "f (Suc i + m') (xs ! m') = Err e r'" using Cons.prems(3) Suc by simp
    from Cons.IH [OF a b c] r show ?thesis by simp
  qed
qed

lemma slice_unfold:
  assumes "CanSet fv" and "Type fv = SliceOf T"
  shows "setFieldValue P fieldName fv (VSlice S xs) =
     (case rangeSlice (\<lambda>i x. setFieldValue P (AtIndex fieldName i) (NewElem T) x) 0
             (sliceElems (VSlice S xs)) of
        Panic p \<Rightarrow> Panic p
      | Err err _ \<Rightarrow> Err err fv
      | Ok slice \<Rightarrow> Ok (fv\<lparr>Content := VSlice T (Some slice)\<rparr>))"
  using assms by (subst setFieldValue.simps) (simp add: Kind_def rvKind_def split: outcome.splits)





text \<open>An error of \<^verbatim>\<open>setFieldValue\<close> is one of its own.\<close>

lemma arm_coercionError:
  "fromString P fv s = Err e fv' \<Longrightarrow> coercionError e"
  "fromBool fv b = Err e fv' \<Longrightarrow> coercionError e"
  "fromInt P fv i = Err e fv' \<Longrightarrow> coercionError e"
  "fromUint P fv u = Err e fv' \<Longrightarrow> coercionError e"
  "fromFloat P fv f = Err e fv' \<Longrightarrow> coercionError e"
  by (auto simp: arm_defs split: gtype.splits sum.splits if_splits)

lemma rangeSlice_coercionError:
  "(\<And>i x e r. f i x = Err e r \<Longrightarrow> coercionError e) \<Longrightarrow> rangeSlice f i xs = Err e r \<Longrightarrow> coercionError e"
  by (induction xs arbitrary: i r) (auto split: outcome.splits)

lemma rangeMap_coercionError:
  "(\<And>k x e r. f k x = Err e r \<Longrightarrow> coercionError e) \<Longrightarrow> rangeMap f es = Err e r \<Longrightarrow> coercionError e"
  by (induction es arbitrary: r) (auto split: outcome.splits)

lemma coercionError_step:
  assumes H: "\<And>n x e r. Kind fv \<in> {KPointer, KSlice, KMap} \<Longrightarrow>
                setFieldValue P n (NewElem (Elem (Type fv))) x = Err e r \<Longrightarrow> coercionError e"
    and run: "setFieldValue P fieldName fv v = Err e fv'"
  shows "coercionError e"
proof -
  note unf = setFieldValue.simps [of P fieldName fv v]
  show ?thesis
  proof (cases "v = VNil")
    case True
    then show ?thesis using run unfolding unf by simp
  next
    case notnil: False
    show ?thesis
    proof (cases "Kind fv = KPointer")
      case True
      then show ?thesis using run H notnil unfolding unf
        by (auto simp: Set_def split: outcome.splits if_splits)
    next
      case notptr: False
      show ?thesis
      proof (cases "CanSet fv")
        case False
        then show ?thesis using run notnil notptr unfolding unf by auto
      next
        case True
        have sl: "coercionError e"
          if k: "Kind fv = KSlice"
            and l: "rangeSlice (\<lambda>i x. setFieldValue P (AtIndex fieldName i) (NewElem (Elem (Type fv))) x) 0
                (sliceElems v) = Err e r" for r
        proof (rule rangeSlice_coercionError [OF _ l])
          fix i x e' r'
          assume "setFieldValue P (AtIndex fieldName i) (NewElem (Elem (Type fv))) x = Err e' r'"
          then show "coercionError e'" using H [of "AtIndex fieldName i" x e' r'] k by simp
        qed
        have mp: "coercionError e"
          if k: "Kind fv = KMap"
            and l: "rangeMap (\<lambda>key x. setFieldValue P (AtKey fieldName key) (NewElem (Elem (Type fv))) x)
                (mapEntries v) = Err e r" for r
        proof (rule rangeMap_coercionError [OF _ l])
          fix key x e' r'
          assume "setFieldValue P (AtKey fieldName key) (NewElem (Elem (Type fv))) x = Err e' r'"
          then show "coercionError e'" using H [of "AtKey fieldName key" x e' r'] k by simp
        qed
        from Err_unchanged [OF run] have same: "fv' = fv" .
        show ?thesis
          using run notnil notptr True unfolding unf same
          by (cases v) (auto split: if_splits outcome.splits dest: arm_coercionError sl mp)
      qed
    qed
  qed
qed

lemma Type_NewElem: "Type (NewElem T) = T"
  by (simp add: NewElem_def)

lemma coercionError_scalar:
  assumes "kindOf (Type fv) \<notin> {KPointer, KSlice, KMap}"
    and run: "setFieldValue P fieldName fv v = Err e fv'"
  shows "coercionError e"
  by (rule coercionError_step [OF _ run]) (use assms(1) in \<open>simp add: Kind_def\<close>)

lemma setFieldValue_coercionError_type:
  "Type fv = T \<Longrightarrow> setFieldValue P fieldName fv v = Err e fv' \<Longrightarrow> coercionError e"
proof (induction T arbitrary: fieldName fv v e fv')
  case (PointerTo T)
  show ?case
  proof (rule coercionError_step [OF _ PointerTo.prems(2)])
    fix n x e r
    assume "setFieldValue P n (NewElem (Elem (Type fv))) x = Err e r"
    then show "coercionError e"
      using PointerTo.IH [of "NewElem T" n x e r] PointerTo.prems(1) by (simp add: Type_NewElem)
  qed
next
  case (SliceOf T)
  show ?case
  proof (rule coercionError_step [OF _ SliceOf.prems(2)])
    fix n x e r
    assume "setFieldValue P n (NewElem (Elem (Type fv))) x = Err e r"
    then show "coercionError e"
      using SliceOf.IH [of "NewElem T" n x e r] SliceOf.prems(1) by (simp add: Type_NewElem)
  qed
next
  case (MapOf K T)
  show ?case
  proof (rule coercionError_step [OF _ MapOf.prems(2)])
    fix n x e r
    assume "setFieldValue P n (NewElem (Elem (Type fv))) x = Err e r"
    then show "coercionError e"
      using MapOf.IH(2) [of "NewElem T" n x e r] MapOf.prems(1) by (simp add: Type_NewElem)
  qed
qed (erule coercionError_scalar [rotated], simp)+

lemma setFieldValue_coercionError:
  "setFieldValue P fieldName fv v = Err e fv' \<Longrightarrow> coercionError e"
  by (rule setFieldValue_coercionError_type [OF refl])

text \<open>
  A source that is no integer and holds none gets none of the errors of the arms for
  integer sources: the loops hand the elements of the source to the calls for the
  elements, and the branch for pointers hands on the source itself.
\<close>

lemma arm_intSourceError:
  "fromString P fv s = Err e fv' \<Longrightarrow> \<not> intSourceError e"
  "fromBool fv b = Err e fv' \<Longrightarrow> \<not> intSourceError e"
  "fromFloat P fv f = Err e fv' \<Longrightarrow> \<not> intSourceError e"
  by (auto simp: arm_defs split: gtype.splits sum.splits if_splits)

lemma rangeSlice_source:
  "rangeSlice f i xs = Err e r \<Longrightarrow> \<exists>j x r'. x \<in> set xs \<and> f j x = Err e r'"
proof (induction xs arbitrary: i r)
  case Nil
  then show ?case by simp
next
  case (Cons a xs)
  show ?case
  proof (cases "f i a")
    case (Ok el)
    with Cons.prems obtain r' where "rangeSlice f (Suc i) xs = Err e r'"
      by (auto split: outcome.splits)
    from Cons.IH [OF this] show ?thesis by auto
  next
    case (Err e' r')
    with Cons.prems have "e' = e" by simp
    with Err show ?thesis by auto
  next
    case (Panic p)
    with Cons.prems show ?thesis by simp
  qed
qed

lemma rangeSlice_error:
  "(\<And>i x e r. x \<in> set xs \<Longrightarrow> f i x = Err e r \<Longrightarrow> Q e) \<Longrightarrow> rangeSlice f i xs = Err e r \<Longrightarrow> Q e"
  using rangeSlice_source [of f i xs e r] by blast

lemma rangeMap_source:
  "rangeMap f es = Err e r \<Longrightarrow> \<exists>k x r'. (k, x) \<in> set es \<and> f k x = Err e r'"
proof (induction es arbitrary: r)
  case Nil
  then show ?case by simp
next
  case (Cons kx es)
  obtain key a where kx: "kx = (key, a)" by (cases kx)
  show ?case
  proof (cases "f key a")
    case (Ok el)
    with Cons.prems kx obtain r' where "rangeMap f es = Err e r'"
      by (auto split: outcome.splits)
    from Cons.IH [OF this] show ?thesis by auto
  next
    case (Err e' r')
    with Cons.prems kx have "e' = e" by simp
    with Err kx show ?thesis by auto
  next
    case (Panic p)
    with Cons.prems kx show ?thesis by simp
  qed
qed

lemma rangeMap_error:
  "(\<And>k x e r. (k, x) \<in> set es \<Longrightarrow> f k x = Err e r \<Longrightarrow> Q e) \<Longrightarrow> rangeMap f es = Err e r \<Longrightarrow> Q e"
  using rangeMap_source [of f es e r] by blast

lemma intFree_sliceElems: "intFree v \<Longrightarrow> x \<in> set (sliceElems v) \<Longrightarrow> intFree x"
  by (cases v rule: sliceElems.cases) (auto simp: list_all_iff)

lemma intFree_mapEntries: "intFree v \<Longrightarrow> (k, x) \<in> set (mapEntries v) \<Longrightarrow> intFree x"
  by (cases v rule: mapEntries.cases) (auto simp: list_all_iff)

lemma intSourceError_step:
  assumes H: "\<And>n x e r. Kind fv \<in> {KPointer, KSlice, KMap} \<Longrightarrow> intFree x \<Longrightarrow>
                setFieldValue P n (NewElem (Elem (Type fv))) x = Err e r \<Longrightarrow> \<not> intSourceError e"
    and free: "intFree v"
    and run: "setFieldValue P fieldName fv v = Err e fv'"
  shows "\<not> intSourceError e"
proof -
  note unf = setFieldValue.simps [of P fieldName fv v]
  show ?thesis
  proof (cases "v = VNil")
    case True
    then show ?thesis using run unfolding unf by simp
  next
    case notnil: False
    show ?thesis
    proof (cases "Kind fv = KPointer")
      case True
      then show ?thesis using run H free notnil unfolding unf
        by (auto simp: Set_def split: outcome.splits if_splits)
    next
      case notptr: False
      show ?thesis
      proof (cases "CanSet fv")
        case False
        then show ?thesis using run notnil notptr unfolding unf by auto
      next
        case True
        have sl: "\<not> intSourceError e"
          if k: "Kind fv = KSlice"
            and l: "rangeSlice (\<lambda>i x. setFieldValue P (AtIndex fieldName i) (NewElem (Elem (Type fv))) x) 0
                (sliceElems v) = Err e r" for r
        proof (rule rangeSlice_error [OF _ l])
          fix i x e' r'
          assume "x \<in> set (sliceElems v)"
            and "setFieldValue P (AtIndex fieldName i) (NewElem (Elem (Type fv))) x = Err e' r'"
          then show "\<not> intSourceError e'"
            using H [of x "AtIndex fieldName i" e' r'] k intFree_sliceElems [OF free] by simp
        qed
        have mp: "\<not> intSourceError e"
          if k: "Kind fv = KMap"
            and l: "rangeMap (\<lambda>key x. setFieldValue P (AtKey fieldName key) (NewElem (Elem (Type fv))) x)
                (mapEntries v) = Err e r" for r
        proof (rule rangeMap_error [OF _ l])
          fix key x e' r'
          assume "(key, x) \<in> set (mapEntries v)"
            and "setFieldValue P (AtKey fieldName key) (NewElem (Elem (Type fv))) x = Err e' r'"
          then show "\<not> intSourceError e'"
            using H [of x "AtKey fieldName key" e' r'] k intFree_mapEntries [OF free] by simp
        qed
        from Err_unchanged [OF run] have same: "fv' = fv" .
        show ?thesis
          using run notnil notptr True free unfolding unf same
          by (cases v) (auto split: if_splits outcome.splits dest: arm_intSourceError sl mp)
      qed
    qed
  qed
qed

lemma intSourceError_scalar:
  assumes "kindOf (Type fv) \<notin> {KPointer, KSlice, KMap}"
    and free: "intFree v"
    and run: "setFieldValue P fieldName fv v = Err e fv'"
  shows "\<not> intSourceError e"
  by (rule intSourceError_step [OF _ free run]) (use assms(1) in \<open>simp add: Kind_def\<close>)

lemma setFieldValue_intFree_type:
  "Type fv = T \<Longrightarrow> intFree v \<Longrightarrow> setFieldValue P fieldName fv v = Err e fv' \<Longrightarrow> \<not> intSourceError e"
proof (induction T arbitrary: fieldName fv v e fv')
  case (PointerTo T)
  show ?case
  proof (rule intSourceError_step [OF _ PointerTo.prems(2,3)])
    fix n x e r
    assume "intFree x" and "setFieldValue P n (NewElem (Elem (Type fv))) x = Err e r"
    then show "\<not> intSourceError e"
      using PointerTo.IH [of "NewElem T" x n e r] PointerTo.prems(1) by (simp add: Type_NewElem)
  qed
next
  case (SliceOf T)
  show ?case
  proof (rule intSourceError_step [OF _ SliceOf.prems(2,3)])
    fix n x e r
    assume "intFree x" and "setFieldValue P n (NewElem (Elem (Type fv))) x = Err e r"
    then show "\<not> intSourceError e"
      using SliceOf.IH [of "NewElem T" x n e r] SliceOf.prems(1) by (simp add: Type_NewElem)
  qed
next
  case (MapOf K T)
  show ?case
  proof (rule intSourceError_step [OF _ MapOf.prems(2,3)])
    fix n x e r
    assume "intFree x" and "setFieldValue P n (NewElem (Elem (Type fv))) x = Err e r"
    then show "\<not> intSourceError e"
      using MapOf.IH(2) [of "NewElem T" x n e r] MapOf.prems(1) by (simp add: Type_NewElem)
  qed
qed (erule intSourceError_scalar [rotated 2], simp, simp)+

lemma setFieldValue_intFree:
  "intFree v \<Longrightarrow> setFieldValue P fieldName fv v = Err e fv' \<Longrightarrow> \<not> intSourceError e"
  by (rule setFieldValue_intFree_type [OF refl])

text \<open>The decoder of JSON hands out no integers.\<close>

lemma set_clearjunk: "set (AList.clearjunk xs) \<subseteq> set xs"
  by (induction xs rule: AList.clearjunk.induct) (auto simp: AList.delete_eq)

lemma intFree_decodeAny: "intFree (decodeAny j)"
proof (induction j)
  case (JArray xs)
  then show ?case by (simp add: list_all_iff)
next
  case (JObject ms)
  have "\<forall>e\<in>set (map (\<lambda>m. (VString (fst m), decodeAny (snd m))) ms). intFree (fst e) \<and> intFree (snd e)"
    using JObject by (auto simp: snds.simps)
  then have "\<forall>e\<in>set (AList.clearjunk (rev (map (\<lambda>m. (VString (fst m), decodeAny (snd m))) ms))).
               intFree (fst e) \<and> intFree (snd e)"
    using set_clearjunk [of "rev (map (\<lambda>m. (VString (fst m), decodeAny (snd m))) ms)"] by fastforce
  then show ?case by (simp add: list_all_iff)
qed simp_all

lemma Decode_intFree: "Decode body = Inr data \<Longrightarrow> data tag = Some v \<Longrightarrow> intFree v"
proof -
  assume d: "Decode body = Inr data" and v: "data tag = Some v"
  show ?thesis
  proof (cases body)
    case (Inl err)
    then show ?thesis using d by (simp add: Decode_def)
  next
    case (Inr doc)
    show ?thesis
    proof (cases doc)
      case (JObject ms)
      with d Inr have "data = map_of (rev (map (\<lambda>m. (fst m, decodeAny (snd m))) ms))"
        by (simp add: Decode_def)
      with v have "(tag, v) \<in> set (rev (map (\<lambda>m. (fst m, decodeAny (snd m))) ms))"
        by (auto dest: map_of_SomeD)
      then obtain j where "v = decodeAny j" by auto
      then show ?thesis by (simp add: intFree_decodeAny)
    qed (use d v Inr in \<open>auto simp: Decode_def\<close>)
  qed
qed

text \<open>
  Truncation: a float with a fractional part is below \<open>2 ^ 52\<close> in size, and its
  truncation is the whole number next to it in the direction of zero.
\<close>

lemma trunc_fractional:
  assumes "\<bar>m\<bar> < 2 ^ 53" and "e < 0"
  shows "\<bar>trunc (Finite m e)\<bar> < 2 ^ 52"
proof -
  let ?k = "nat (- e)"
  have k: "1 \<le> ?k" using assms(2) by simp
  have "(2::int) ^ 1 \<le> 2 ^ ?k" using k by (intro power_increasing) simp_all
  then have "\<bar>m\<bar> div 2 ^ ?k \<le> \<bar>m\<bar> div 2"
    using zdiv_mono2 [of "\<bar>m\<bar>" 2 "2 ^ ?k"] by simp
  moreover have "\<bar>m\<bar> div 2 < 2 ^ 52" using assms(1) by simp
  moreover have "0 \<le> \<bar>m\<bar> div 2 ^ ?k" by (simp add: pos_imp_zdiv_nonneg_iff)
  ultimately have "\<bar>sgn m * (\<bar>m\<bar> div 2 ^ ?k)\<bar> < 2 ^ 52"
    by (simp add: abs_mult abs_sgn_eq)
  then show ?thesis using assms(2) by simp
qed

lemma trunc_towards_zero:
  assumes "e < 0"
  shows "\<bar>trunc (Finite m e)\<bar> * 2 ^ nat (- e) \<le> \<bar>m\<bar>
       \<and> \<bar>m\<bar> < (\<bar>trunc (Finite m e)\<bar> + 1) * 2 ^ nat (- e)
       \<and> 0 \<le> trunc (Finite m e) * m"
proof -
  let ?d = "(2::int) ^ nat (- e)"
  let ?q = "\<bar>m\<bar> div ?d"
  have d: "0 < ?d" by simp
  have q: "0 \<le> ?q" by (simp add: pos_imp_zdiv_nonneg_iff)
  have t: "trunc (Finite m e) = sgn m * ?q" using assms by simp
  have abs_t: "\<bar>trunc (Finite m e)\<bar> = ?q"
  proof (cases "m = 0")
    case True
    then show ?thesis using t by simp
  next
    case False
    then show ?thesis using t q by (simp add: abs_mult abs_sgn_eq)
  qed
  have eq: "?q * ?d + \<bar>m\<bar> mod ?d = \<bar>m\<bar>" by (rule div_mult_mod_eq)
  have r0: "0 \<le> \<bar>m\<bar> mod ?d" using d by (rule pos_mod_sign)
  have r1: "\<bar>m\<bar> mod ?d < ?d" using d by (rule pos_mod_bound)
  have lo: "?q * ?d \<le> \<bar>m\<bar>" using eq r0 by linarith
  have "(?q + 1) * ?d = ?q * ?d + ?d" by (simp add: algebra_simps)
  then have hi: "\<bar>m\<bar> < (?q + 1) * ?d" using eq r1 by linarith
  have "sgn m * m = \<bar>m\<bar>" by (simp add: abs_sgn mult.commute)
  then have "0 \<le> (sgn m * m) * ?q" using q by simp
  then have sign: "0 \<le> trunc (Finite m e) * m" using t by (simp add: mult_ac)
  from lo hi sign abs_t show ?thesis by simp
qed

text \<open>
  A destination of type pointer to \<open>T\<close> that can be set, next to any destination \<open>b\<close>
  of type \<open>T\<close> that can be set: where the coercion into \<open>b\<close> succeeds, the pointer is
  set to a new variable that holds what \<open>b\<close> would hold, and where it returns an error,
  the same error is returned and the pointer is left as it was.
\<close>

lemma pointer_settable:
  assumes "CanSet fv" and "Type fv = PointerTo T" and "CanSet b" and "Type b = T"
  shows "(setFieldValue P fieldName b value = Ok b'
            \<longrightarrow> setFieldValue P fieldName fv value = Ok (fv\<lparr>Content := VPtr T (Some (Content b'))\<rparr>))
       \<and> (setFieldValue P fieldName b value = Err e b'
            \<longrightarrow> setFieldValue P fieldName fv value = Err e fv)"
proof -
  have b: "b = (NewElem T)\<lparr>Content := Content b\<rparr>"
    using assms(3,4) by (simp add: NewElem_def)
  have rb: "setFieldValue P fieldName b value
              = rebase b (setFieldValue P fieldName (NewElem T) value)"
    using content_irrelevant [where fv = "NewElem T" and c = "Content b"] b by simp
  have unf: "value \<noteq> VNil \<Longrightarrow> setFieldValue P fieldName fv value =
     (case setFieldValue P fieldName (NewElem T) value of
        Panic p \<Rightarrow> Panic p
      | Err err _ \<Rightarrow> Err err fv
      | Ok ptrElem \<Rightarrow> Ok (fv\<lparr>Content := VPtr T (Some (Content ptrElem))\<rparr>))"
    using assms(1,2)
    by (subst setFieldValue.simps) (simp add: Kind_def Set_def split: outcome.splits)
  have nil: "value = VNil \<Longrightarrow> setFieldValue P fieldName b value = Panic GivenNil"
    by (simp add: setFieldValue.simps)
  show ?thesis
  proof (intro conjI impI)
    assume ok: "setFieldValue P fieldName b value = Ok b'"
    then have "value \<noteq> VNil" using nil by auto
    then show "setFieldValue P fieldName fv value = Ok (fv\<lparr>Content := VPtr T (Some (Content b'))\<rparr>)"
      using ok rb by (auto simp: unf rebase_def split: outcome.splits)
  next
    assume err: "setFieldValue P fieldName b value = Err e b'"
    then have "value \<noteq> VNil" using nil by auto
    then show "setFieldValue P fieldName fv value = Err e fv"
      using err rb by (auto simp: unf rebase_def split: outcome.splits)
  qed
qed

lemma pointer_settable_example:
  "setFieldValue examplePlatform (Field ''Age'')
      \<lparr>Type = PointerTo (IntT Int'), CanSet = True, Content = VPtr (IntT Int') None\<rparr> (VString ''30'')
    = Ok \<lparr>Type = PointerTo (IntT Int'), CanSet = True,
          Content = VPtr (IntT Int') (Some (VInt Int' 30))\<rparr>
   \<and> setFieldValue examplePlatform (Field ''Age'')
      \<lparr>Type = PointerTo (IntT Int'), CanSet = True, Content = VPtr (IntT Int') None\<rparr> (VString ''abc'')
    = Err (CannotConvert ''abc'' ToInt ErrSyntax)
        \<lparr>Type = PointerTo (IntT Int'), CanSet = True, Content = VPtr (IntT Int') None\<rparr>"
proof -
  let ?fv = "\<lparr>Type = PointerTo (IntT Int'), CanSet = True, Content = VPtr (IntT Int') None\<rparr>"
  let ?b = "\<lparr>Type = IntT Int', CanSet = True, Content = VInt Int' 7\<rparr>"
  have h1: "CanSet ?fv" by simp
  have h2: "Type ?fv = PointerTo (IntT Int')" by simp
  have h3: "CanSet ?b" by simp
  have h4: "Type ?b = IntT Int'" by simp
  have ok: "setFieldValue examplePlatform (Field ''Age'') ?b (VString ''30'')
             = Ok \<lparr>Type = IntT Int', CanSet = True, Content = VInt Int' 30\<rparr>"
    by (simp add: eval_defs examplePlatform_def)
  have err: "setFieldValue examplePlatform (Field ''Age'') ?b (VString ''abc'')
             = Err (CannotConvert ''abc'' ToInt ErrSyntax) ?b"
    by (simp add: eval_defs)
  from pointer_settable [OF h1 h2 h3 h4, of examplePlatform "Field ''Age''" "VString ''30''"
      "\<lparr>Type = IntT Int', CanSet = True, Content = VInt Int' 30\<rparr>"] ok
  have a: "setFieldValue examplePlatform (Field ''Age'') ?fv (VString ''30'')
    = Ok \<lparr>Type = PointerTo (IntT Int'), CanSet = True,
          Content = VPtr (IntT Int') (Some (VInt Int' 30))\<rparr>"
    by simp
  from pointer_settable [OF h1 h2 h3 h4, of examplePlatform "Field ''Age''" "VString ''abc''" _
      "CannotConvert ''abc'' ToInt ErrSyntax"] err
  have b: "setFieldValue examplePlatform (Field ''Age'') ?fv (VString ''abc'')
    = Err (CannotConvert ''abc'' ToInt ErrSyntax) ?fv"
    by simp
  from a b show ?thesis by simp
qed

text \<open>
  A float with a fractional part into a field of an integer kind that can be set: the
  conversions \<^verbatim>\<open>int64(f)\<close> and \<^verbatim>\<open>uint64(f)\<close> are the truncation, since it is in range.
\<close>

lemma float_into_int:
  assumes "CanSet fv" and "Type fv = IntT k" and "is_float64 (Finite m e)" and "fractional (Finite m e)"
  shows "setFieldValue P fieldName fv (VFloat Float64 (Finite m e))
          = Ok (fv\<lparr>Content := VInt k (signed_take_bit (intBits P k - 1) (trunc (Finite m e)))\<rparr>)"
proof -
  from assms have m: "\<bar>m\<bar> < 2 ^ 53" and e: "e < 0" by auto
  from trunc_fractional [OF m e] have "\<bar>trunc (Finite m e)\<bar> < 2 ^ 52" .
  then have "- (2 ^ 63) \<le> trunc (Finite m e) \<and> trunc (Finite m e) < 2 ^ 63" by (simp add: abs_less_iff)
  then have "toInt64 P (Finite m e) = trunc (Finite m e)" by (simp add: Let_def)
  then show ?thesis
    using assms(1,2) by (simp add: setFieldValue.simps Kind_def fromFloat_def)
qed

lemma float_into_uint:
  assumes "CanSet fv" and "Type fv = UintT k" and "is_float64 (Finite m e)" and "fractional (Finite m e)"
  shows "setFieldValue P fieldName fv (VFloat Float64 (Finite m e))
          = (if m < 0 then Err NegativeFloatToUint fv
             else Ok (fv\<lparr>Content := VUint k (take_bit (uintBits P k) (nat (trunc (Finite m e))))\<rparr>))"
proof (cases "m < 0")
  case True
  then show ?thesis
    using assms(1,2) by (simp add: setFieldValue.simps Kind_def fromFloat_def)
next
  case False
  from assms have m: "\<bar>m\<bar> < 2 ^ 53" and e: "e < 0" by auto
  from trunc_fractional [OF m e] have small: "\<bar>trunc (Finite m e)\<bar> < 2 ^ 52" .
  from trunc_towards_zero [OF e, of m] have "0 \<le> trunc (Finite m e) * m" by simp
  have nn: "0 \<le> trunc (Finite m e)"
    using False e by (simp add: sgn_if pos_imp_zdiv_nonneg_iff)
  from small have "trunc (Finite m e) < 2 ^ 64" by (simp add: abs_less_iff)
  with nn have "toUint64 P (Finite m e) = nat (trunc (Finite m e))" by (simp add: Let_def)
  then show ?thesis
    using assms(1,2) False by (simp add: setFieldValue.simps Kind_def fromFloat_def)
qed

section \<open>Properties of the walk and of the entry points\<close>

lemmas bind_defs = BindForm_def BindQuery_def BindJSON_def afterWalk_def formField_def
  queryField_def queryGet_def queryHas_def jsonField_def writeField_def FieldValue_def
  tagName_def Get_def Decode_def

lemma validateRequired_None:
  "validateRequired w obj = None
      \<longleftrightarrow> (\<forall>fc\<in>set obj. Get (Tag (fst fc)) ''binding'' = ''required'' \<longrightarrow> Name (fst fc) \<in> w)"
  by (induction obj) (auto split: if_splits)

lemma validateRequired_Some:
  "i < length obj \<Longrightarrow>
   Get (Tag (fst (obj ! i))) ''binding'' = ''required'' \<Longrightarrow> Name (fst (obj ! i)) \<notin> w \<Longrightarrow>
   (\<forall>j<i. Get (Tag (fst (obj ! j))) ''binding'' = ''required'' \<longrightarrow> Name (fst (obj ! j)) \<in> w) \<Longrightarrow>
   validateRequired w obj = Some (IsRequired (Name (fst (obj ! i))))"
proof (induction obj arbitrary: i)
  case Nil
  then show ?case by simp
next
  case (Cons fc rest)
  obtain f c where fc: "fc = (f, c)" by (cases fc)
  show ?case
  proof (cases i)
    case 0
    then show ?thesis using Cons.prems fc by simp
  next
    case (Suc i')
    have first: "Get (Tag f) ''binding'' = ''required'' \<longrightarrow> Name f \<in> w"
      using Cons.prems(4) [rule_format, of 0] Suc fc by simp
    have rest: "\<forall>j<i'. Get (Tag (fst (rest ! j))) ''binding'' = ''required'' \<longrightarrow> Name (fst (rest ! j)) \<in> w"
    proof (intro allI impI)
      fix j assume "j < i'" "Get (Tag (fst (rest ! j))) ''binding'' = ''required''"
      then show "Name (fst (rest ! j)) \<in> w"
        using Cons.prems(4) [rule_format, of "Suc j"] Suc by simp
    qed
    have "validateRequired w rest = Some (IsRequired (Name (fst (rest ! i'))))"
      using Cons.IH [of i'] Cons.prems(1,2,3) Suc rest by simp
    then show ?thesis using first Suc fc by auto
  qed
qed

text \<open>
  A walk whose callback returns an error at a field ends there: the fields before it are
  as the walk over them alone leaves them, the fields after it are untouched.
\<close>

lemma forEachField_fails:
  "forEachField pre tagKey fn w = Ok (pre', w1) \<Longrightarrow>
   fn f (FieldValue (f, c)) (tagName tagKey f) w1 = Err e (fv', w2) \<Longrightarrow>
   forEachField (pre @ (f, c) # post) tagKey fn w = Err e (pre' @ (f, Content fv') # post, w2)"
proof (induction pre arbitrary: w pre')
  case Nil
  then show ?case by simp
next
  case (Cons gd pre)
  obtain g d where gd: "gd = (g, d)" by (cases gd)
  from Cons.prems(1) gd obtain gv w0 rest' where
    step: "fn g (FieldValue (g, d)) (tagName tagKey g) w = Ok (gv, w0)"
    and walk: "forEachField pre tagKey fn w0 = Ok (rest', w1)"
    and pre': "pre' = (g, Content gv) # rest'"
    by (auto split: outcome.splits prod.splits)
  from Cons.IH [OF walk Cons.prems(2)] step pre' gd show ?case by simp
qed

lemma writeField_Err:
  "setFieldValue P (Field (Name f)) fv v = Err e fv' \<Longrightarrow> writeField P f fv v w = Err e (fv, w)"
  using Err_unchanged [of P "Field (Name f)" fv v e fv'] by (simp add: writeField_def)



text \<open>
  A walk over two lists of fields is the walk over the first followed by the walk over the
  second. An error of a walk is an error of its callback.
\<close>

lemma forEachField_append:
  "forEachField (pre @ rest) tagKey fn w =
     (case forEachField pre tagKey fn w of
        Panic p \<Rightarrow> Panic p
      | Err e (pre', w') \<Rightarrow> Err e (pre' @ rest, w')
      | Ok (pre', w') \<Rightarrow>
          (case forEachField rest tagKey fn w' of
             Panic p \<Rightarrow> Panic p
           | Err e (rest', w'') \<Rightarrow> Err e (pre' @ rest', w'')
           | Ok (rest', w'') \<Rightarrow> Ok (pre' @ rest', w'')))"
proof (induction pre arbitrary: w)
  case Nil
  then show ?case by (simp split: outcome.splits prod.splits)
next
  case (Cons gd pre)
  obtain g d where gd: "gd = (g, d)" by (cases gd)
  show ?case unfolding gd
    by (simp add: Cons.IH split: outcome.splits prod.splits)
qed

lemma forEachField_source:
  "forEachField obj tagKey fn w = Err e r \<Longrightarrow> \<exists>f fv tag w' r'. fn f fv tag w' = Err e r'"
proof (induction obj arbitrary: w r)
  case Nil
  then show ?case by simp
next
  case (Cons gd obj)
  obtain g d where gd: "gd = (g, d)" by (cases gd)
  show ?case
  proof (cases "fn g (FieldValue (g, d)) (tagName tagKey g) w")
    case (Ok x)
    obtain fv w0 where x: "x = (fv, w0)" by (cases x)
    with Ok Cons.prems gd obtain r' where "forEachField obj tagKey fn w0 = Err e r'"
      by (auto split: outcome.splits prod.splits)
    from Cons.IH [OF this] show ?thesis .
  next
    case (Err e' x)
    with Cons.prems gd have "e' = e" by (auto split: prod.splits)
    with Err show ?thesis by blast
  next
    case (Panic p)
    with Cons.prems gd show ?thesis by simp
  qed
qed

lemma forEachField_error:
  "(\<And>f fv tag w e r. fn f fv tag w = Err e r \<Longrightarrow> Q e) \<Longrightarrow>
   forEachField obj tagKey fn w = Err e r \<Longrightarrow> Q e"
  using forEachField_source [of obj tagKey fn w e r] by blast

lemma writeField_Ok:
  "setFieldValue P (Field (Name f)) fv v = Ok fv' \<Longrightarrow>
   writeField P f fv v w = Ok (fv', insert (Name f) w)"
  by (simp add: writeField_def)

lemma validateRequired_error:
  "validateRequired w obj = Some e \<Longrightarrow> \<exists>n. e = IsRequired n"
  by (induction obj) (auto split: if_splits)

text \<open>
  \<^verbatim>\<open>BindJSON\<close> at a field for which the body holds a value: when the coercion succeeds
  the walk goes on with the field written, and when it returns an error the bind ends.
\<close>

lemma BindJSON_writes:
  assumes "Decode (Body r) = Inr data"
    and "forEachField pre ''json'' (jsonField P data) {} = Ok (pre', w)"
    and "data (tagName ''json'' f) = Some v"
    and "setFieldValue P (Field (Name f)) (FieldValue (f, c)) v = Ok fv'"
    and "Content fv' = x"
  shows "BindJSON P r (pre @ (f, c) # post) =
     afterWalk
       (case forEachField post ''json'' (jsonField P data) (insert (Name f) w) of
          Panic p \<Rightarrow> Panic p
        | Err err (post', w') \<Rightarrow> Err err (pre' @ (f, x) # post', w')
        | Ok (post', w') \<Rightarrow> Ok (pre' @ (f, x) # post', w'))"
proof -
  have step: "jsonField P data f (FieldValue (f, c)) (tagName ''json'' f) w
                = Ok (fv', insert (Name f) w)"
    using assms(3) writeField_Ok [OF assms(4)] by (simp add: jsonField_def)
  show ?thesis
    using assms(1,2,5) step
    by (simp add: BindJSON_def forEachField_append split: outcome.splits prod.splits)
qed

lemma BindJSON_fails:
  assumes "Decode (Body r) = Inr data"
    and "forEachField pre ''json'' (jsonField P data) {} = Ok (pre', w)"
    and "data (tagName ''json'' f) = Some v"
    and "setFieldValue P (Field (Name f)) (FieldValue (f, c)) v = Err e fv'"
  shows "BindJSON P r (pre @ (f, c) # post) = Err e (pre' @ (f, c) # post)"
proof -
  have step: "jsonField P data f (FieldValue (f, c)) (tagName ''json'' f) w
                = Err e (FieldValue (f, c), w)"
    using assms(3) writeField_Err [OF assms(4)] by (simp add: jsonField_def)
  show ?thesis
    using assms(1,2) step
    by (simp add: BindJSON_def forEachField_append afterWalk_def FieldValue_def)
qed

lemma Decode_member:
  assumes "body = Inr (JObject ms)" and "map_of (rev ms) tag = Some j"
  shows "\<exists>data. Decode body = Inr data \<and> data tag = Some (decodeAny j)"
proof -
  have "map_of (map (\<lambda>m. (fst m, decodeAny (snd m))) xs) tag = map_option decodeAny (map_of xs tag)"
    for xs :: "(string \<times> json) list"
    by (induction xs) auto
  from this [of "rev ms"] assms show ?thesis
    by (simp add: Decode_def rev_map)
qed

text \<open>
  The values that the callback of \<^verbatim>\<open>BindJSON\<close> finds in the decoded body hold no
  integers, so what it would do with one that does has no part in it.
\<close>

lemma jsonField_intFree:
  assumes "Decode body = Inr data" and "jsonField P data f fv tag w = Err e r"
  shows "\<not> intSourceError e"
  using assms Decode_intFree [OF assms(1)]
  by (auto simp: jsonField_def writeField_def split: option.splits outcome.splits
           dest: setFieldValue_intFree)

lemma BindJSON_intFree:
  assumes "Decode (Body r) = Inr data" and "BindJSON P r obj = Err e obj'"
  shows "\<not> intSourceError e"
proof -
  have walk: "\<not> intSourceError e'"
    if "forEachField obj ''json'' (jsonField P data) {} = Err e' x" for e' x
    by (rule forEachField_error [OF _ that]) (rule jsonField_intFree [OF assms(1)])
  from assms show ?thesis
    by (auto simp: BindJSON_def afterWalk_def split: outcome.splits prod.splits option.splits
             dest: walk validateRequired_error)
qed

lemma jsonField_guard:
  assumes "Decode body = Inr data"
  shows "jsonField P data =
     (\<lambda>field fv tag writtenFields.
        case data tag of
          None \<Rightarrow> Ok (fv, writtenFields)
        | Some value \<Rightarrow>
            if intFree value then writeField P field fv value writtenFields
            else g field fv value writtenFields)"
  using Decode_intFree [OF assms]
  by (intro ext) (auto simp: jsonField_def split: option.splits)

section \<open>The tests of the package\<close>

text \<open>
  The model gives what the tests of the package expect: the cases of
  \<^verbatim>\<open>TestSetFieldValue\<close> that do not parse or round a float, and two cases of
  \<^verbatim>\<open>TestBindForm\<close>. The float 5.8 is \<open>6530219459687219 * 2 ^ -50\<close>.
\<close>

lemma TestSetFieldValue:
  "setFieldValue examplePlatform (Field ''Str'') (NewElem StringT) (VString ''world'')
     = Ok ((NewElem StringT)\<lparr>Content := VString ''world''\<rparr>)"
  "setFieldValue examplePlatform (Field ''Str'') (NewElem StringT) (VBool True)
     = Err (CannotAssignBool KString) (NewElem StringT)"
  "setFieldValue examplePlatform (Field ''StrPtr'') (NewElem (PointerTo StringT)) (VString ''pointer'')
     = Ok ((NewElem (PointerTo StringT))\<lparr>Content := VPtr StringT (Some (VString ''pointer''))\<rparr>)"
  "setFieldValue examplePlatform (Field ''Bool'') (NewElem BoolT) (VBool True)
     = Ok ((NewElem BoolT)\<lparr>Content := VBool True\<rparr>)"
  "setFieldValue examplePlatform (Field ''Bool'') (NewElem BoolT) (VString ''true'')
     = Ok ((NewElem BoolT)\<lparr>Content := VBool True\<rparr>)"
  "setFieldValue examplePlatform (Field ''Bool'') (NewElem BoolT) (VString ''false'')
     = Ok ((NewElem BoolT)\<lparr>Content := VBool False\<rparr>)"
  "setFieldValue examplePlatform (Field ''Bool'') (NewElem BoolT) (VString ''notabool'')
     = Err (CannotConvert ''notabool'' ToBool ErrSyntax) (NewElem BoolT)"
  "setFieldValue examplePlatform (Field ''Int'') (NewElem (IntT Int')) (VInt Int' 5)
     = Ok ((NewElem (IntT Int'))\<lparr>Content := VInt Int' 5\<rparr>)"
  "setFieldValue examplePlatform (Field ''Int'') (NewElem (IntT Int')) (VString ''42'')
     = Ok ((NewElem (IntT Int'))\<lparr>Content := VInt Int' 42\<rparr>)"
  "setFieldValue examplePlatform (Field ''Int'') (NewElem (IntT Int'))
       (VFloat Float64 (Finite 6530219459687219 (- 50)))
     = Ok ((NewElem (IntT Int'))\<lparr>Content := VInt Int' 5\<rparr>)"
  "setFieldValue examplePlatform (Field ''Int'') (NewElem (IntT Int')) (VBool True)
     = Err (CannotAssignBool (KInt Int')) (NewElem (IntT Int'))"
  "setFieldValue examplePlatform (Field ''IntPtr'') (NewElem (PointerTo (IntT Int'))) (VInt Int' 42)
     = Ok ((NewElem (PointerTo (IntT Int')))\<lparr>Content := VPtr (IntT Int') (Some (VInt Int' 42))\<rparr>)"
  "setFieldValue examplePlatform (Field ''Uint'') (NewElem (UintT Uint)) (VUint Uint 9)
     = Ok ((NewElem (UintT Uint))\<lparr>Content := VUint Uint 9\<rparr>)"
  "setFieldValue examplePlatform (Field ''Uint'') (NewElem (UintT Uint)) (VString ''123'')
     = Ok ((NewElem (UintT Uint))\<lparr>Content := VUint Uint 123\<rparr>)"
  "setFieldValue examplePlatform (Field ''Uint'') (NewElem (UintT Uint)) (VInt Int' (- 2))
     = Err NegativeIntToUint (NewElem (UintT Uint))"
  "setFieldValue examplePlatform (Field ''Uint'') (NewElem (UintT Uint)) (VBool True)
     = Err (CannotAssignBool (KUint Uint)) (NewElem (UintT Uint))"
  "setFieldValue examplePlatform (Field ''Slice'') (NewElem (SliceOf (IntT Int')))
       (VSlice (IntT Int') (Some [VInt Int' 1, VInt Int' 2, VInt Int' 3]))
     = Ok ((NewElem (SliceOf (IntT Int')))
            \<lparr>Content := VSlice (IntT Int') (Some [VInt Int' 1, VInt Int' 2, VInt Int' 3])\<rparr>)"
  "setFieldValue examplePlatform (Field ''Slice'') (NewElem (SliceOf (IntT Int')))
       (VSlice StringT (Some [VString ''a'']))
     = Err (CannotConvert ''a'' ToInt ErrSyntax) (NewElem (SliceOf (IntT Int')))"
  "setFieldValue examplePlatform (Field ''Map'') (NewElem (MapOf StringT (IntT Int')))
       (VMap StringT (IntT Int') (Some [(VString ''a'', VInt Int' 1)]))
     = Ok ((NewElem (MapOf StringT (IntT Int')))
            \<lparr>Content := VMap StringT (IntT Int') (Some [(VString ''a'', VInt Int' 1)])\<rparr>)"
  "setFieldValue examplePlatform (Field ''Map'') (NewElem (MapOf StringT (IntT Int')))
       (VMap (IntT Int') (IntT Int') (Some [(VInt Int' 1, VInt Int' 2)]))
     = Err (MapKeyType (IntT Int') StringT) (NewElem (MapOf StringT (IntT Int')))"
  "setFieldValue examplePlatform (Field ''Map'') (NewElem (MapOf StringT (IntT Int')))
       (VMap StringT StringT (Some []))
     = Err (MapValueType StringT (IntT Int')) (NewElem (MapOf StringT (IntT Int')))"
  "setFieldValue examplePlatform (Field ''Int'') (NewElem (IntT Int')) (VInt Int64 6)
     = Ok ((NewElem (IntT Int'))\<lparr>Content := VInt Int' 6\<rparr>)"
  "setFieldValue examplePlatform (Field ''Uint'') (NewElem (UintT Uint)) (VUint Uint64 9)
     = Ok ((NewElem (UintT Uint))\<lparr>Content := VUint Uint 9\<rparr>)"
  by (simp_all add: eval_defs examplePlatform_def)

lemma TestBindForm:
  "BindForm examplePlatform
      \<lparr>ParseForm = None,
       Form = [''name'' \<mapsto> [''Alice''], ''age'' \<mapsto> [''32''], ''Email'' \<mapsto> [''alice@test.com'']],
       Query = Map.empty, Body = Inl (External ''EOF'')\<rparr>
      [(\<lparr>Name = ''Name'', Typ = StringT, Tag = [(''form'', ''name''), (''binding'', ''required'')],
          Exported = True\<rparr>, VString []),
       (\<lparr>Name = ''Age'', Typ = IntT Int', Tag = [(''form'', ''age'')], Exported = True\<rparr>, VInt Int' 0),
       (\<lparr>Name = ''Email'', Typ = StringT, Tag = [], Exported = True\<rparr>, VString [])]
    = Ok
      [(\<lparr>Name = ''Name'', Typ = StringT, Tag = [(''form'', ''name''), (''binding'', ''required'')],
          Exported = True\<rparr>, VString ''Alice''),
       (\<lparr>Name = ''Age'', Typ = IntT Int', Tag = [(''form'', ''age'')], Exported = True\<rparr>, VInt Int' 32),
       (\<lparr>Name = ''Email'', Typ = StringT, Tag = [], Exported = True\<rparr>, VString ''alice@test.com'')]"
  "BindForm examplePlatform
      \<lparr>ParseForm = None,
       Form = [''age'' \<mapsto> [''32''], ''Email'' \<mapsto> [''bob@test.com'']],
       Query = Map.empty, Body = Inl (External ''EOF'')\<rparr>
      [(\<lparr>Name = ''Name'', Typ = StringT, Tag = [(''form'', ''name''), (''binding'', ''required'')],
          Exported = True\<rparr>, VString []),
       (\<lparr>Name = ''Age'', Typ = IntT Int', Tag = [(''form'', ''age'')], Exported = True\<rparr>, VInt Int' 0),
       (\<lparr>Name = ''Email'', Typ = StringT, Tag = [], Exported = True\<rparr>, VString [])]
    = Err (IsRequired ''Name'')
      [(\<lparr>Name = ''Name'', Typ = StringT, Tag = [(''form'', ''name''), (''binding'', ''required'')],
          Exported = True\<rparr>, VString []),
       (\<lparr>Name = ''Age'', Typ = IntT Int', Tag = [(''form'', ''age'')], Exported = True\<rparr>, VInt Int' 32),
       (\<lparr>Name = ''Email'', Typ = StringT, Tag = [], Exported = True\<rparr>, VString ''bob@test.com'')]"
  by (simp_all add: eval_defs bind_defs examplePlatform_def)

section \<open>The claims\<close>

subsection \<open>A nil source\<close>

text \<open>
  Claim C9. Whatever the destination is, a pointer or not, settable or not, a nil
  \<open>value\<close> makes \<^verbatim>\<open>setFieldValue\<close> panic: the test for nil comes first, before the
  pointer is looked through. No error is returned and nothing is written.
\<close>

theorem nil_source_panics:
  "setFieldValue P fieldName fv VNil = Panic GivenNil"
  by (simp add: setFieldValue.simps)

subsection \<open>A string into a signed integer\<close>

text \<open>
  Claim C1, as amended. Let \<open>s\<close> be a string that \<^verbatim>\<open>strconv.ParseInt(s, 10, 64)\<close> reads
  as \<open>i\<close>, and \<open>fv\<close> a settable destination of a signed integer kind \<open>k\<close>. Then the
  coercion succeeds, and \<open>fv\<close> holds \<open>i\<close> cut to the width of \<open>k\<close> (the low bits of
  \<open>i\<close>, read as a signed number). That is \<open>i\<close> itself exactly when \<open>i\<close> fits the width,
  and so always for \<^verbatim>\<open>int64\<close>.
\<close>

theorem string_to_int_wraps:
  assumes "CanSet fv" and "Type fv = IntT k" and "ParseInt s = Inr i"
  shows "setFieldValue P fieldName fv (VString s) =
           Ok (fv\<lparr>Content := VInt k (signed_take_bit (intBits P k - 1) i)\<rparr>)
       \<and> (signed_take_bit (intBits P k - 1) i = i
            \<longleftrightarrow> - (2 ^ (intBits P k - 1)) \<le> i \<and> i < 2 ^ (intBits P k - 1))
       \<and> (k = Int64 \<longrightarrow> setFieldValue P fieldName fv (VString s) = Ok (fv\<lparr>Content := VInt k i\<rparr>))"
proof -
  have run: "setFieldValue P fieldName fv (VString s) =
           Ok (fv\<lparr>Content := VInt k (signed_take_bit (intBits P k - 1) i)\<rparr>)"
    using assms by (simp add: setFieldValue.simps Kind_def fromString_def)
  have fits: "signed_take_bit (intBits P k - 1) i = i
            \<longleftrightarrow> - (2 ^ (intBits P k - 1)) \<le> i \<and> i < 2 ^ (intBits P k - 1)"
    by (rule signed_take_bit_int_eq_self_iff)
  have "signed_take_bit (intBits P Int64 - 1) i = i"
    using ParseInt_range [OF assms(3)] by (simp add: signed_take_bit_int_eq_self_iff)
  with run fits show ?thesis by auto
qed

theorem string_to_int_wraps_witness:
  "CanSet \<lparr>Type = IntT Int16, CanSet = True, Content = VInt Int16 0\<rparr>
   \<and> Type \<lparr>Type = IntT Int16, CanSet = True, Content = VInt Int16 0\<rparr> = IntT Int16
   \<and> ParseInt ''-300'' = Inr (- 300)
   \<and> setFieldValue examplePlatform (Field ''Age'')
        \<lparr>Type = IntT Int16, CanSet = True, Content = VInt Int16 0\<rparr> (VString ''-300'')
      = Ok \<lparr>Type = IntT Int16, CanSet = True, Content = VInt Int16 (- 300)\<rparr>
   \<and> setFieldValue examplePlatform (Field ''Age'')
        \<lparr>Type = IntT Int64, CanSet = True, Content = VInt Int64 0\<rparr> (VString ''-300'')
      = Ok \<lparr>Type = IntT Int64, CanSet = True, Content = VInt Int64 (- 300)\<rparr>"
proof -
  let ?fv = "\<lparr>Type = IntT Int16, CanSet = True, Content = VInt Int16 0\<rparr>"
  let ?fw = "\<lparr>Type = IntT Int64, CanSet = True, Content = VInt Int64 0\<rparr>"
  have h1: "CanSet ?fv" by simp
  have h2: "Type ?fv = IntT Int16" by simp
  have h3: "ParseInt ''-300'' = Inr (- 300)"
    by (simp add: ParseInt_def ParseUint_def maxUint64_def)
  from string_to_int_wraps [OF h1 h2 h3, of examplePlatform "Field ''Age''"]
  have a: "setFieldValue examplePlatform (Field ''Age'') ?fv (VString ''-300'')
      = Ok \<lparr>Type = IntT Int16, CanSet = True, Content = VInt Int16 (- 300)\<rparr>"
    by simp
  have g1: "CanSet ?fw" by simp
  have g2: "Type ?fw = IntT Int64" by simp
  from string_to_int_wraps [OF g1 g2 h3, of examplePlatform "Field ''Age''"]
  have b: "setFieldValue examplePlatform (Field ''Age'') ?fw (VString ''-300'')
      = Ok \<lparr>Type = IntT Int64, CanSet = True, Content = VInt Int64 (- 300)\<rparr>"
    by simp
  from h1 h2 h3 a b show ?thesis by simp
qed

text \<open>
  The claim as it stands fails for the narrower kinds: \<^verbatim>\<open>"300"\<close> parses as 300, and an
  \<^verbatim>\<open>int8\<close> destination ends up holding 44. It fails as well for a destination that
  cannot be set (an unexported field), which gets the error \<^verbatim>\<open>field age is not settable\<close>.
\<close>

theorem string_to_int_exact_counterexample:
  "ParseInt ''300'' = Inr 300
   \<and> setFieldValue examplePlatform (Field ''Age'')
        \<lparr>Type = IntT Int8, CanSet = True, Content = VInt Int8 0\<rparr> (VString ''300'')
      = Ok \<lparr>Type = IntT Int8, CanSet = True, Content = VInt Int8 44\<rparr>
   \<and> setFieldValue examplePlatform (Field ''Age'')
        \<lparr>Type = IntT Int8, CanSet = True, Content = VInt Int8 0\<rparr> (VString ''300'')
      \<noteq> Ok \<lparr>Type = IntT Int8, CanSet = True, Content = VInt Int8 300\<rparr>
   \<and> setFieldValue examplePlatform (Field ''age'')
        \<lparr>Type = IntT Int64, CanSet = False, Content = VInt Int64 0\<rparr> (VString ''300'')
      = Err (NotSettable (Field ''age'')) \<lparr>Type = IntT Int64, CanSet = False, Content = VInt Int64 0\<rparr>"
  by (simp add: eval_defs)

subsection \<open>A signed integer into an unsigned integer\<close>

text \<open>
  Claim C4, as amended. Let \<open>fv\<close> be a settable destination of an unsigned integer kind
  \<open>k\<close> and the source a signed integer \<open>i\<close>. If \<open>i\<close> is not negative the coercion
  succeeds and \<open>fv\<close> holds the low bits of \<open>i\<close> at the width of \<open>k\<close>, which is \<open>i\<close>
  itself when \<open>i\<close> fits the width. If \<open>i\<close> is negative the coercion returns the error
  \<^verbatim>\<open>cannot assign negative int to uint\<close> and \<open>fv\<close> holds what it held.
\<close>

theorem int_to_uint:
  assumes "CanSet fv" and "Type fv = UintT k"
  shows "(0 \<le> i \<longrightarrow> setFieldValue P fieldName fv (VInt s i) =
            Ok (fv\<lparr>Content := VUint k (take_bit (uintBits P k) (nat i))\<rparr>))
       \<and> (0 \<le> i \<and> i < 2 ^ uintBits P k \<longrightarrow> setFieldValue P fieldName fv (VInt s i) =
            Ok (fv\<lparr>Content := VUint k (nat i)\<rparr>))
       \<and> (i < 0 \<longrightarrow> setFieldValue P fieldName fv (VInt s i) = Err NegativeIntToUint fv)"
proof -
  have "0 \<le> i \<Longrightarrow> i < 2 ^ uintBits P k \<Longrightarrow> take_bit (uintBits P k) (nat i) = nat i"
    by (simp add: take_bit_nat_eq_self_iff nat_less_iff)
  then show ?thesis
    using assms by (auto simp: setFieldValue.simps Kind_def fromInt_def)
qed

theorem int_to_uint_witness:
  "setFieldValue examplePlatform (Field ''N'')
        \<lparr>Type = UintT Uint16, CanSet = True, Content = VUint Uint16 7\<rparr> (VInt Int' 300)
      = Ok \<lparr>Type = UintT Uint16, CanSet = True, Content = VUint Uint16 300\<rparr>
   \<and> setFieldValue examplePlatform (Field ''N'')
        \<lparr>Type = UintT Uint16, CanSet = True, Content = VUint Uint16 7\<rparr> (VInt Int' (- 2))
      = Err NegativeIntToUint \<lparr>Type = UintT Uint16, CanSet = True, Content = VUint Uint16 7\<rparr>"
proof -
  let ?fv = "\<lparr>Type = UintT Uint16, CanSet = True, Content = VUint Uint16 7\<rparr>"
  have h1: "CanSet ?fv" by simp
  have h2: "Type ?fv = UintT Uint16" by simp
  from int_to_uint [OF h1 h2, of 300 examplePlatform "Field ''N''" Int']
  have a: "setFieldValue examplePlatform (Field ''N'') ?fv (VInt Int' 300)
      = Ok \<lparr>Type = UintT Uint16, CanSet = True, Content = VUint Uint16 300\<rparr>"
    by simp
  from int_to_uint [OF h1 h2, of "- 2" examplePlatform "Field ''N''" Int']
  have b: "setFieldValue examplePlatform (Field ''N'') ?fv (VInt Int' (- 2))
      = Err NegativeIntToUint ?fv"
    by simp
  from a b show ?thesis by simp
qed

text \<open>
  The claim as it stands fails where the source does not fit: the \<^verbatim>\<open>int\<close> 300 leaves 44
  in a \<^verbatim>\<open>uint8\<close> destination. It fails as well for a destination that cannot be set,
  which gets the error \<^verbatim>\<open>field n is not settable\<close>.
\<close>

theorem int_to_uint_exact_counterexample:
  "setFieldValue examplePlatform (Field ''N'')
        \<lparr>Type = UintT Uint8, CanSet = True, Content = VUint Uint8 0\<rparr> (VInt Int' 300)
      = Ok \<lparr>Type = UintT Uint8, CanSet = True, Content = VUint Uint8 44\<rparr>
   \<and> setFieldValue examplePlatform (Field ''N'')
        \<lparr>Type = UintT Uint8, CanSet = True, Content = VUint Uint8 0\<rparr> (VInt Int' 300)
      \<noteq> Ok \<lparr>Type = UintT Uint8, CanSet = True, Content = VUint Uint8 300\<rparr>
   \<and> setFieldValue examplePlatform (Field ''n'')
        \<lparr>Type = UintT Uint64, CanSet = False, Content = VUint Uint64 0\<rparr> (VInt Int' 300)
      = Err (NotSettable (Field ''n'')) \<lparr>Type = UintT Uint64, CanSet = False, Content = VUint Uint64 0\<rparr>"
  by (simp add: eval_defs)

subsection \<open>A slice into a slice\<close>

text \<open>
  Claim C2, as amended. Let \<open>fv\<close> be a settable destination of a slice type with
  elements of type \<open>T\<close>, and the source a slice with the elements \<open>elems\<close>. The loop
  coerces element \<open>j\<close> into a fresh variable of type \<open>T\<close>. If the coercion of element
  \<open>m\<close> returns an error, after the elements before it were coerced,
  \<^verbatim>\<open>setFieldValue\<close> returns that error and \<open>fv\<close> holds what it held. If every element
  is coerced, \<open>fv\<close> receives a slice of the same length that holds, at every index, what
  the coercion of that element has written.
\<close>

theorem slice_all_or_nothing:
  assumes "CanSet fv" and "Type fv = SliceOf T" and "elems = sliceElems (VSlice S xs)"
  shows "(m < length elems
          \<and> (\<forall>j<m. \<exists>r. setFieldValue P (AtIndex fieldName j) (NewElem T) (elems ! j) = Ok r)
          \<and> setFieldValue P (AtIndex fieldName m) (NewElem T) (elems ! m) = Err e r'
          \<longrightarrow> setFieldValue P fieldName fv (VSlice S xs) = Err e fv)
       \<and> ((\<forall>j<length elems. \<exists>r. setFieldValue P (AtIndex fieldName j) (NewElem T) (elems ! j) = Ok r)
          \<longrightarrow> (\<exists>ys. length ys = length elems
                \<and> (\<forall>j<length elems. setFieldValue P (AtIndex fieldName j) (NewElem T) (elems ! j)
                                       = Ok ((NewElem T)\<lparr>Content := ys ! j\<rparr>))
                \<and> setFieldValue P fieldName fv (VSlice S xs) = Ok (fv\<lparr>Content := VSlice T (Some ys)\<rparr>)))"
proof (intro conjI impI)
  let ?f = "\<lambda>i x. setFieldValue P (AtIndex fieldName i) (NewElem T) x"
  assume "m < length elems
          \<and> (\<forall>j<m. \<exists>r. setFieldValue P (AtIndex fieldName j) (NewElem T) (elems ! j) = Ok r)
          \<and> setFieldValue P (AtIndex fieldName m) (NewElem T) (elems ! m) = Err e r'"
  then have "rangeSlice ?f 0 elems = Err e []"
    using rangeSlice_Err [of m elems ?f 0 e r'] by simp
  then show "setFieldValue P fieldName fv (VSlice S xs) = Err e fv"
    using assms by (simp add: slice_unfold)
next
  let ?f = "\<lambda>i x. setFieldValue P (AtIndex fieldName i) (NewElem T) x"
  assume "\<forall>j<length elems. \<exists>r. setFieldValue P (AtIndex fieldName j) (NewElem T) (elems ! j) = Ok r"
  then obtain ys where ys: "length ys = length elems"
    "\<forall>j<length elems. \<exists>r. ?f (0 + j) (elems ! j) = Ok r \<and> Content r = ys ! j"
    "rangeSlice ?f 0 elems = Ok ys"
    using rangeSlice_Ok [of elems ?f 0] by auto
  have "\<forall>j<length elems. ?f j (elems ! j) = Ok ((NewElem T)\<lparr>Content := ys ! j\<rparr>)"
  proof (intro allI impI)
    fix j assume "j < length elems"
    with ys(2) obtain r where r: "?f j (elems ! j) = Ok r" "Content r = ys ! j" by auto
    from Ok_shape [OF r(1)] r show "?f j (elems ! j) = Ok ((NewElem T)\<lparr>Content := ys ! j\<rparr>)" by simp
  qed
  moreover have "setFieldValue P fieldName fv (VSlice S xs) = Ok (fv\<lparr>Content := VSlice T (Some ys)\<rparr>)"
    using assms ys(3) by (simp add: slice_unfold)
  ultimately show "\<exists>ys. length ys = length elems
                \<and> (\<forall>j<length elems. setFieldValue P (AtIndex fieldName j) (NewElem T) (elems ! j)
                                       = Ok ((NewElem T)\<lparr>Content := ys ! j\<rparr>))
                \<and> setFieldValue P fieldName fv (VSlice S xs) = Ok (fv\<lparr>Content := VSlice T (Some ys)\<rparr>)"
    using ys(1) by blast
qed

theorem slice_all_or_nothing_witness:
  "setFieldValue examplePlatform (Field ''Ids'')
      \<lparr>Type = SliceOf (IntT Int8), CanSet = True, Content = VSlice (IntT Int8) None\<rparr>
      (VSlice StringT (Some [VString ''1'', VString ''x'', VString ''3'']))
    = Err (CannotConvert ''x'' ToInt ErrSyntax)
        \<lparr>Type = SliceOf (IntT Int8), CanSet = True, Content = VSlice (IntT Int8) None\<rparr>
   \<and> setFieldValue examplePlatform (Field ''Ids'')
      \<lparr>Type = SliceOf (IntT Int8), CanSet = True, Content = VSlice (IntT Int8) None\<rparr>
      (VSlice StringT (Some [VString ''1'', VString ''2'']))
    = Ok \<lparr>Type = SliceOf (IntT Int8), CanSet = True,
          Content = VSlice (IntT Int8) (Some [VInt Int8 1, VInt Int8 2])\<rparr>"
proof -
  let ?fv = "\<lparr>Type = SliceOf (IntT Int8), CanSet = True, Content = VSlice (IntT Int8) None\<rparr>"
  let ?bad = "[VString ''1'', VString ''x'', VString ''3'']"
  let ?good = "[VString ''1'', VString ''2'']"
  let ?el = "\<lambda>j x. setFieldValue examplePlatform (AtIndex (Field ''Ids'') j) (NewElem (IntT Int8)) x"
  have h1: "CanSet ?fv" by simp
  have h2: "Type ?fv = SliceOf (IntT Int8)" by simp
  have e0: "\<And>j. ?el j (VString ''1'') = Ok ((NewElem (IntT Int8))\<lparr>Content := VInt Int8 1\<rparr>)"
    by (simp add: eval_defs)
  have e1: "\<And>j. ?el j (VString ''2'') = Ok ((NewElem (IntT Int8))\<lparr>Content := VInt Int8 2\<rparr>)"
    by (simp add: eval_defs)
  have ex: "\<And>j. ?el j (VString ''x'') = Err (CannotConvert ''x'' ToInt ErrSyntax) (NewElem (IntT Int8))"
    by (simp add: eval_defs)
  have bad: "?bad = sliceElems (VSlice StringT (Some ?bad))" by simp
  have good: "?good = sliceElems (VSlice StringT (Some ?good))" by simp
  have "1 < length ?bad \<and> (\<forall>j<1. \<exists>r. ?el j (?bad ! j) = Ok r)
        \<and> ?el 1 (?bad ! 1) = Err (CannotConvert ''x'' ToInt ErrSyntax) (NewElem (IntT Int8))"
    using e0 ex by simp
  with slice_all_or_nothing [OF h1 h2 bad, of 1 examplePlatform "Field ''Ids''"
      "CannotConvert ''x'' ToInt ErrSyntax" "NewElem (IntT Int8)"]
  have a: "setFieldValue examplePlatform (Field ''Ids'') ?fv (VSlice StringT (Some ?bad))
      = Err (CannotConvert ''x'' ToInt ErrSyntax) ?fv"
    by blast
  have "\<forall>j<length ?good. \<exists>r. ?el j (?good ! j) = Ok r"
    using e0 e1 by (auto simp: less_Suc_eq)
  with slice_all_or_nothing [OF h1 h2 good, of 0 examplePlatform "Field ''Ids''"]
  obtain ys where ys: "length ys = length ?good"
    "\<forall>j<length ?good. ?el j (?good ! j) = Ok ((NewElem (IntT Int8))\<lparr>Content := ys ! j\<rparr>)"
    "setFieldValue examplePlatform (Field ''Ids'') ?fv (VSlice StringT (Some ?good))
      = Ok (?fv\<lparr>Content := VSlice (IntT Int8) (Some ys)\<rparr>)"
    by blast
  from ys(2) [rule_format, of 0] e0 [of 0] have y0: "ys ! 0 = VInt Int8 1"
    by (simp add: NewElem_def)
  from ys(2) [rule_format, of 1] e1 [of 1] have y1: "ys ! 1 = VInt Int8 2"
    by (simp add: NewElem_def)
  from ys(1) y0 y1 have "ys = [VInt Int8 1, VInt Int8 2]"
    by (cases ys; cases "tl ys") auto
  with ys(3) have b: "setFieldValue examplePlatform (Field ''Ids'') ?fv (VSlice StringT (Some ?good))
      = Ok \<lparr>Type = SliceOf (IntT Int8), CanSet = True,
          Content = VSlice (IntT Int8) (Some [VInt Int8 1, VInt Int8 2])\<rparr>"
    by simp
  from a b show ?thesis by simp
qed

text \<open>
  The claim as it stands covers every slice destination. A destination that cannot be set
  (an unexported field) gets the error \<^verbatim>\<open>field ids is not settable\<close> although every
  element can be coerced, and nothing is committed.
\<close>

theorem slice_all_or_nothing_counterexample:
  "setFieldValue examplePlatform (AtIndex (Field ''ids'') 0) (NewElem (IntT Int8)) (VString ''1'')
     = Ok ((NewElem (IntT Int8))\<lparr>Content := VInt Int8 1\<rparr>)
   \<and> setFieldValue examplePlatform (AtIndex (Field ''ids'') 1) (NewElem (IntT Int8)) (VString ''2'')
     = Ok ((NewElem (IntT Int8))\<lparr>Content := VInt Int8 2\<rparr>)
   \<and> setFieldValue examplePlatform (Field ''ids'')
      \<lparr>Type = SliceOf (IntT Int8), CanSet = False, Content = VSlice (IntT Int8) None\<rparr>
      (VSlice StringT (Some [VString ''1'', VString ''2'']))
    = Err (NotSettable (Field ''ids''))
        \<lparr>Type = SliceOf (IntT Int8), CanSet = False, Content = VSlice (IntT Int8) None\<rparr>"
  by (simp add: eval_defs)

subsection \<open>A map into a map\<close>




subsection \<open>A pointer destination\<close>

text \<open>
  Claim C3. A destination of type pointer to \<open>T\<close> is to behave as one of type \<open>T\<close>:
  the coercion succeeds where the coercion into a \<open>T\<close> succeeds, and returns the same
  error where that one returns an error, leaving the pointer nil. The code does so for a
  destination that can be set (lemma \<open>pointer_settable\<close>), and not for a field that
  cannot, an unexported field: the branch for pointers comes before the test of
  \<^verbatim>\<open>CanSet\<close>. The comment of \<^verbatim>\<open>setFieldValue\<close> says that it returns an error if the
  value cannot be written, and for the struct with the field \<^verbatim>\<open>age int\<close> it does:
  \<^verbatim>\<open>BindForm\<close> returns \<^verbatim>\<open>field age is not settable\<close> for the forms \<^verbatim>\<open>age=30\<close> and
  \<^verbatim>\<open>age=abc\<close>. For the struct with the field \<^verbatim>\<open>age *int\<close>, the form \<^verbatim>\<open>age=30\<close>
  makes it panic in \<^verbatim>\<open>fv.Set(ptrVal)\<close>, and the form \<^verbatim>\<open>age=abc\<close> gets the error of
  \<^verbatim>\<open>strconv.ParseInt\<close> instead.
\<close>

theorem pointer_unsettable_panics:
  "BindForm examplePlatform
      \<lparr>ParseForm = None, Form = [''age'' \<mapsto> [''30'']], Query = Map.empty, Body = Inl (External ''EOF'')\<rparr>
      [(\<lparr>Name = ''age'', Typ = IntT Int', Tag = [], Exported = False\<rparr>, VInt Int' 0)]
    = Err (NotSettable (Field ''age''))
        [(\<lparr>Name = ''age'', Typ = IntT Int', Tag = [], Exported = False\<rparr>, VInt Int' 0)]
   \<and> BindForm examplePlatform
      \<lparr>ParseForm = None, Form = [''age'' \<mapsto> [''30'']], Query = Map.empty, Body = Inl (External ''EOF'')\<rparr>
      [(\<lparr>Name = ''age'', Typ = PointerTo (IntT Int'), Tag = [], Exported = False\<rparr>, VPtr (IntT Int') None)]
    = Panic SetUnsettable
   \<and> BindForm examplePlatform
      \<lparr>ParseForm = None, Form = [''age'' \<mapsto> [''abc'']], Query = Map.empty, Body = Inl (External ''EOF'')\<rparr>
      [(\<lparr>Name = ''age'', Typ = IntT Int', Tag = [], Exported = False\<rparr>, VInt Int' 0)]
    = Err (NotSettable (Field ''age''))
        [(\<lparr>Name = ''age'', Typ = IntT Int', Tag = [], Exported = False\<rparr>, VInt Int' 0)]
   \<and> BindForm examplePlatform
      \<lparr>ParseForm = None, Form = [''age'' \<mapsto> [''abc'']], Query = Map.empty, Body = Inl (External ''EOF'')\<rparr>
      [(\<lparr>Name = ''age'', Typ = PointerTo (IntT Int'), Tag = [], Exported = False\<rparr>, VPtr (IntT Int') None)]
    = Err (CannotConvert ''abc'' ToInt ErrSyntax)
        [(\<lparr>Name = ''age'', Typ = PointerTo (IntT Int'), Tag = [], Exported = False\<rparr>, VPtr (IntT Int') None)]
   \<and> setFieldValue examplePlatform (Field ''age'')
      \<lparr>Type = IntT Int', CanSet = False, Content = VInt Int' 0\<rparr> (VString ''30'')
    = Err (NotSettable (Field ''age'')) \<lparr>Type = IntT Int', CanSet = False, Content = VInt Int' 0\<rparr>
   \<and> setFieldValue examplePlatform (Field ''age'')
      \<lparr>Type = PointerTo (IntT Int'), CanSet = False, Content = VPtr (IntT Int') None\<rparr> (VString ''30'')
    = Panic SetUnsettable"
  by (simp add: eval_defs bind_defs examplePlatform_def)

subsection \<open>The first failing field\<close>

text \<open>
  Claim C6. Let the struct be \<open>pre @ (f, c) # post\<close>, let the walk over the fields
  \<open>pre\<close> return nil and leave them as \<open>pre'\<close>, and let the request hold a value for
  field \<open>f\<close> whose coercion returns the error \<open>e\<close>. Then each of \<^verbatim>\<open>BindForm\<close>,
  \<^verbatim>\<open>BindQuery\<close> and \<^verbatim>\<open>BindJSON\<close> returns \<open>e\<close>; the fields before \<open>f\<close> hold what the
  walk has written to them, and \<open>f\<close> and the fields after it hold what they held. The
  error is the one of the coercion and never one of \<^verbatim>\<open>validateRequired\<close>, which is
  not run.
\<close>

theorem bind_fails_fast:
  assumes "setFieldValue P (Field (Name f)) (FieldValue (f, c)) v = Err e fv'"
  shows "(\<forall>n. e \<noteq> IsRequired n)
       \<and> (ParseForm r = None
          \<and> forEachField pre ''form'' (formField P (Form r)) {} = Ok (pre', w)
          \<and> Form r (tagName ''form'' f) = Some (x # xs) \<and> v = VString x
          \<longrightarrow> BindForm P r (pre @ (f, c) # post) = Err e (pre' @ (f, c) # post))
       \<and> (forEachField pre ''query'' (queryField P (Query r)) {} = Ok (pre', w)
          \<and> Query r (tagName ''query'' f) \<noteq> None
          \<and> v = VString (queryGet (Query r) (tagName ''query'' f))
          \<longrightarrow> BindQuery P r (pre @ (f, c) # post) = Err e (pre' @ (f, c) # post))
       \<and> (Decode (Body r) = Inr data
          \<and> forEachField pre ''json'' (jsonField P data) {} = Ok (pre', w)
          \<and> data (tagName ''json'' f) = Some v
          \<longrightarrow> BindJSON P r (pre @ (f, c) # post) = Err e (pre' @ (f, c) # post))"
proof (intro conjI impI allI)
  fix n
  from setFieldValue_coercionError [OF assms] show "e \<noteq> IsRequired n"
    by (cases e) simp_all
next
  assume a: "ParseForm r = None
          \<and> forEachField pre ''form'' (formField P (Form r)) {} = Ok (pre', w)
          \<and> Form r (tagName ''form'' f) = Some (x # xs) \<and> v = VString x"
  then have "formField P (Form r) f (FieldValue (f, c)) (tagName ''form'' f) w
              = Err e (FieldValue (f, c), w)"
    using writeField_Err [OF assms] by (simp add: formField_def)
  moreover from a have "forEachField pre ''form'' (formField P (Form r)) {} = Ok (pre', w)"
    by simp
  ultimately have "forEachField (pre @ (f, c) # post) ''form'' (formField P (Form r)) {}
              = Err e (pre' @ (f, Content (FieldValue (f, c))) # post, w)"
    by (rule forEachField_fails [rotated])
  then show "BindForm P r (pre @ (f, c) # post) = Err e (pre' @ (f, c) # post)"
    using a by (simp add: BindForm_def afterWalk_def FieldValue_def)
next
  assume a: "forEachField pre ''query'' (queryField P (Query r)) {} = Ok (pre', w)
          \<and> Query r (tagName ''query'' f) \<noteq> None
          \<and> v = VString (queryGet (Query r) (tagName ''query'' f))"
  then have "queryField P (Query r) f (FieldValue (f, c)) (tagName ''query'' f) w
              = Err e (FieldValue (f, c), w)"
    using writeField_Err [OF assms] by (simp add: queryField_def queryHas_def)
  moreover from a have "forEachField pre ''query'' (queryField P (Query r)) {} = Ok (pre', w)"
    by simp
  ultimately have "forEachField (pre @ (f, c) # post) ''query'' (queryField P (Query r)) {}
              = Err e (pre' @ (f, Content (FieldValue (f, c))) # post, w)"
    by (rule forEachField_fails [rotated])
  then show "BindQuery P r (pre @ (f, c) # post) = Err e (pre' @ (f, c) # post)"
    by (simp add: BindQuery_def afterWalk_def FieldValue_def)
next
  assume a: "Decode (Body r) = Inr data
          \<and> forEachField pre ''json'' (jsonField P data) {} = Ok (pre', w)
          \<and> data (tagName ''json'' f) = Some v"
  then have "jsonField P data f (FieldValue (f, c)) (tagName ''json'' f) w
              = Err e (FieldValue (f, c), w)"
    using writeField_Err [OF assms] by (simp add: jsonField_def)
  moreover from a have "forEachField pre ''json'' (jsonField P data) {} = Ok (pre', w)"
    by simp
  ultimately have "forEachField (pre @ (f, c) # post) ''json'' (jsonField P data) {}
              = Err e (pre' @ (f, Content (FieldValue (f, c))) # post, w)"
    by (rule forEachField_fails [rotated])
  then show "BindJSON P r (pre @ (f, c) # post) = Err e (pre' @ (f, c) # post)"
    using a by (simp add: BindJSON_def afterWalk_def FieldValue_def)
qed

theorem bind_fails_fast_witness:
  "BindForm examplePlatform
      \<lparr>ParseForm = None, Form = [''name'' \<mapsto> [''A''], ''Active'' \<mapsto> [''notabool'']],
       Query = Map.empty, Body = Inl (External ''EOF'')\<rparr>
      [(\<lparr>Name = ''Name'', Typ = StringT, Tag = [(''form'', ''name'')], Exported = True\<rparr>, VString []),
       (\<lparr>Name = ''Active'', Typ = BoolT, Tag = [], Exported = True\<rparr>, VBool False),
       (\<lparr>Name = ''Title'', Typ = StringT, Tag = [(''binding'', ''required'')], Exported = True\<rparr>, VString [])]
    = Err (CannotConvert ''notabool'' ToBool ErrSyntax)
      [(\<lparr>Name = ''Name'', Typ = StringT, Tag = [(''form'', ''name'')], Exported = True\<rparr>, VString ''A''),
       (\<lparr>Name = ''Active'', Typ = BoolT, Tag = [], Exported = True\<rparr>, VBool False),
       (\<lparr>Name = ''Title'', Typ = StringT, Tag = [(''binding'', ''required'')], Exported = True\<rparr>, VString [])]
   \<and> BindQuery examplePlatform
      \<lparr>ParseForm = None, Form = Map.empty,
       Query = [''Name'' \<mapsto> [''A''], ''Active'' \<mapsto> [''notabool'']], Body = Inl (External ''EOF'')\<rparr>
      [(\<lparr>Name = ''Name'', Typ = StringT, Tag = [(''form'', ''name'')], Exported = True\<rparr>, VString []),
       (\<lparr>Name = ''Active'', Typ = BoolT, Tag = [], Exported = True\<rparr>, VBool False),
       (\<lparr>Name = ''Title'', Typ = StringT, Tag = [(''binding'', ''required'')], Exported = True\<rparr>, VString [])]
    = Err (CannotConvert ''notabool'' ToBool ErrSyntax)
      [(\<lparr>Name = ''Name'', Typ = StringT, Tag = [(''form'', ''name'')], Exported = True\<rparr>, VString ''A''),
       (\<lparr>Name = ''Active'', Typ = BoolT, Tag = [], Exported = True\<rparr>, VBool False),
       (\<lparr>Name = ''Title'', Typ = StringT, Tag = [(''binding'', ''required'')], Exported = True\<rparr>, VString [])]
   \<and> BindJSON examplePlatform
      \<lparr>ParseForm = None, Form = Map.empty, Query = Map.empty,
       Body = Inr (JObject [(''Name'', JString ''A''), (''Active'', JString ''notabool'')])\<rparr>
      [(\<lparr>Name = ''Name'', Typ = StringT, Tag = [(''form'', ''name'')], Exported = True\<rparr>, VString []),
       (\<lparr>Name = ''Active'', Typ = BoolT, Tag = [], Exported = True\<rparr>, VBool False),
       (\<lparr>Name = ''Title'', Typ = StringT, Tag = [(''binding'', ''required'')], Exported = True\<rparr>, VString [])]
    = Err (CannotConvert ''notabool'' ToBool ErrSyntax)
      [(\<lparr>Name = ''Name'', Typ = StringT, Tag = [(''form'', ''name'')], Exported = True\<rparr>, VString ''A''),
       (\<lparr>Name = ''Active'', Typ = BoolT, Tag = [], Exported = True\<rparr>, VBool False),
       (\<lparr>Name = ''Title'', Typ = StringT, Tag = [(''binding'', ''required'')], Exported = True\<rparr>, VString [])]"
proof -
  let ?name = "\<lparr>Name = ''Name'', Typ = StringT, Tag = [(''form'', ''name'')], Exported = True\<rparr>"
  let ?active = "\<lparr>Name = ''Active'', Typ = BoolT, Tag = [], Exported = True\<rparr>"
  let ?title = "\<lparr>Name = ''Title'', Typ = StringT, Tag = [(''binding'', ''required'')], Exported = True\<rparr>"
  let ?pre = "[(?name, VString [])]"
  let ?pre' = "[(?name, VString ''A'')]"
  let ?post = "[(?title, VString [])]"
  let ?e = "CannotConvert ''notabool'' ToBool ErrSyntax"
  let ?rf = "\<lparr>ParseForm = None, Form = [''name'' \<mapsto> [''A''], ''Active'' \<mapsto> [''notabool'']],
       Query = Map.empty, Body = Inl (External ''EOF'')\<rparr>"
  let ?rq = "\<lparr>ParseForm = None, Form = Map.empty,
       Query = [''Name'' \<mapsto> [''A''], ''Active'' \<mapsto> [''notabool'']], Body = Inl (External ''EOF'')\<rparr>"
  let ?rj = "\<lparr>ParseForm = None, Form = Map.empty, Query = Map.empty,
       Body = Inr (JObject [(''Name'', JString ''A''), (''Active'', JString ''notabool'')])\<rparr>"
  let ?data = "map_of (rev (map (\<lambda>m. (fst m, decodeAny (snd m)))
                 [(''Name'', JString ''A''), (''Active'', JString ''notabool'')]))"
  have fails: "setFieldValue examplePlatform (Field (Name ?active)) (FieldValue (?active, VBool False))
                 (VString ''notabool'') = Err ?e (FieldValue (?active, VBool False))"
    by (simp add: eval_defs FieldValue_def)
  have form: "ParseForm ?rf = None
      \<and> forEachField ?pre ''form'' (formField examplePlatform (Form ?rf)) {} = Ok (?pre', {''Name''})
      \<and> Form ?rf (tagName ''form'' ?active) = Some (''notabool'' # [])
      \<and> VString ''notabool'' = VString ''notabool''"
    by (simp add: eval_defs bind_defs)
  have query: "forEachField ?pre ''query'' (queryField examplePlatform (Query ?rq)) {} = Ok (?pre', {''Name''})
      \<and> Query ?rq (tagName ''query'' ?active) \<noteq> None
      \<and> VString ''notabool'' = VString (queryGet (Query ?rq) (tagName ''query'' ?active))"
    by (simp add: eval_defs bind_defs)
  have json: "Decode (Body ?rj) = Inr ?data
      \<and> forEachField ?pre ''json'' (jsonField examplePlatform ?data) {} = Ok (?pre', {''Name''})
      \<and> ?data (tagName ''json'' ?active) = Some (VString ''notabool'')"
    by (simp add: eval_defs bind_defs)
  note inst = bind_fails_fast [OF fails, where post = ?post and pre = ?pre and pre' = ?pre'
      and w = "{''Name''}" and x = "''notabool''" and xs = "[]"]
  from inst [where r = ?rf] form
  have a: "BindForm examplePlatform ?rf (?pre @ (?active, VBool False) # ?post)
             = Err ?e (?pre' @ (?active, VBool False) # ?post)"
    by blast
  from inst [where r = ?rq] query
  have b: "BindQuery examplePlatform ?rq (?pre @ (?active, VBool False) # ?post)
             = Err ?e (?pre' @ (?active, VBool False) # ?post)"
    by blast
  from inst [where r = ?rj and data = ?data] json
  have c: "BindJSON examplePlatform ?rj (?pre @ (?active, VBool False) # ?post)
             = Err ?e (?pre' @ (?active, VBool False) # ?post)"
    by blast
  from a b c show ?thesis by simp
qed

subsection \<open>Required fields\<close>

text \<open>
  Claim C7. \<^verbatim>\<open>validateRequired\<close> returns nil exactly when every field with the tag
  \<^verbatim>\<open>binding:"required"\<close> has its name in \<open>w\<close>, the set of written fields. Otherwise it
  returns one error, which names the first field in the order of declaration that is
  required and not in \<open>w\<close>.
\<close>

theorem validateRequired_first_missing:
  "(validateRequired w obj = None
      \<longleftrightarrow> (\<forall>fc\<in>set obj. Get (Tag (fst fc)) ''binding'' = ''required'' \<longrightarrow> Name (fst fc) \<in> w))
   \<and> (i < length obj
       \<and> Get (Tag (fst (obj ! i))) ''binding'' = ''required'' \<and> Name (fst (obj ! i)) \<notin> w
       \<and> (\<forall>j<i. Get (Tag (fst (obj ! j))) ''binding'' = ''required'' \<longrightarrow> Name (fst (obj ! j)) \<in> w)
      \<longrightarrow> validateRequired w obj = Some (IsRequired (Name (fst (obj ! i)))))"
  using validateRequired_None [of w obj] validateRequired_Some [of i obj w] by blast

theorem validateRequired_first_missing_witness:
  "validateRequired {''Age''}
      [(\<lparr>Name = ''Name'', Typ = StringT, Tag = [(''form'', ''name''), (''binding'', ''required'')], Exported = True\<rparr>, VString []),
       (\<lparr>Name = ''Age'', Typ = IntT Int', Tag = [(''binding'', ''required'')], Exported = True\<rparr>, VInt Int' 40),
       (\<lparr>Name = ''Email'', Typ = StringT, Tag = [(''binding'', ''required'')], Exported = True\<rparr>, VString [])]
     = Some (IsRequired ''Name'')
   \<and> validateRequired {''Age'', ''Name'', ''Email''}
      [(\<lparr>Name = ''Name'', Typ = StringT, Tag = [(''form'', ''name''), (''binding'', ''required'')], Exported = True\<rparr>, VString []),
       (\<lparr>Name = ''Age'', Typ = IntT Int', Tag = [(''binding'', ''required'')], Exported = True\<rparr>, VInt Int' 40),
       (\<lparr>Name = ''Email'', Typ = StringT, Tag = [(''binding'', ''required'')], Exported = True\<rparr>, VString [])]
     = None"
proof -
  let ?obj = "[(\<lparr>Name = ''Name'', Typ = StringT, Tag = [(''form'', ''name''), (''binding'', ''required'')], Exported = True\<rparr>, VString []),
       (\<lparr>Name = ''Age'', Typ = IntT Int', Tag = [(''binding'', ''required'')], Exported = True\<rparr>, VInt Int' 40),
       (\<lparr>Name = ''Email'', Typ = StringT, Tag = [(''binding'', ''required'')], Exported = True\<rparr>, VString [])]"
  have "0 < length ?obj
       \<and> Get (Tag (fst (?obj ! 0))) ''binding'' = ''required'' \<and> Name (fst (?obj ! 0)) \<notin> {''Age''}
       \<and> (\<forall>j<0. Get (Tag (fst (?obj ! j))) ''binding'' = ''required'' \<longrightarrow> Name (fst (?obj ! j)) \<in> {''Age''})"
    by (simp add: Get_def)
  with validateRequired_first_missing [of "{''Age''}" ?obj 0]
  have a: "validateRequired {''Age''} ?obj = Some (IsRequired ''Name'')"
    by simp
  have "\<forall>fc\<in>set ?obj. Get (Tag (fst fc)) ''binding'' = ''required'' \<longrightarrow> Name (fst fc) \<in> {''Age'', ''Name'', ''Email''}"
    by simp
  with validateRequired_first_missing [of "{''Age'', ''Name'', ''Email''}" ?obj 0]
  have b: "validateRequired {''Age'', ''Name'', ''Email''} ?obj = None"
    by blast
  from a b show ?thesis by simp
qed

subsection \<open>Several values under one name\<close>


subsection \<open>Numbers in a JSON body\<close>

text \<open>
  Claim C10, as amended. The decoder turns a JSON number into a \<^verbatim>\<open>float64\<close>, and no value
  that \<^verbatim>\<open>BindJSON\<close> hands to \<^verbatim>\<open>setFieldValue\<close> is or holds a signed or unsigned
  integer. So the arms of the type switch for integer sources are not entered: what the
  callback would do with such a value (\<open>g\<close> below) has no part in \<^verbatim>\<open>BindJSON\<close>, which
  returns none of the errors of these arms.

  A JSON number \<open>f = m * 2 ^ e\<close> with a fractional part, bound to a settable field of an
  integer kind, is coerced as follows. For a signed kind \<open>k\<close> there is no error, and the
  field receives \<open>trunc f\<close> converted to the type of the field as \<^verbatim>\<open>SetInt\<close> does: the
  low bits, which are \<open>trunc f\<close> itself when it fits. For an unsigned kind \<open>u\<close>, a
  negative \<open>f\<close> gets the error \<^verbatim>\<open>cannot assign negative float to uint\<close> and the field
  is left as it was; a positive \<open>f\<close> is coerced without an error and the field receives
  \<open>trunc f\<close> converted as \<^verbatim>\<open>SetUint\<close> does. \<open>trunc f\<close> is the whole number next to
  \<open>f\<close> in the direction of zero, and it is below \<open>2 ^ 52\<close> in size, so that a field of
  type \<^verbatim>\<open>int64\<close> or \<^verbatim>\<open>uint64\<close> holds \<open>trunc f\<close> itself.

  The same holds through \<^verbatim>\<open>BindJSON\<close>, for an exported field \<open>fld\<close> of a struct
  \<open>pre @ (fld, c) # post\<close> and a body that is an object with the number \<open>f\<close> under the
  name of the field, when the walk over the fields \<open>pre\<close> returns nil: the field is
  written and the walk goes on over \<open>post\<close>, or, for the negative number and the
  unsigned kind, the bind ends with the error. The body
  \<^verbatim>\<open>{"title": "t", "num": 5.8}\<close> leaves 5 in the \<^verbatim>\<open>int\<close> field.
\<close>

theorem json_numbers_are_floats:
  "decodeAny (JNumber f) = VFloat Float64 f
   \<and> intFree (decodeAny j)
   \<and> (Decode body = Inr data \<and> data tag = Some v \<longrightarrow> intFree v)
   \<and> (Decode (Body r) = Inr data \<longrightarrow>
        BindJSON P r obj
          = afterWalk (forEachField obj ''json''
              (\<lambda>field fv tag writtenFields.
                 case data tag of
                   None \<Rightarrow> Ok (fv, writtenFields)
                 | Some value \<Rightarrow>
                     if intFree value then writeField P field fv value writtenFields
                     else g field fv value writtenFields) {})
        \<and> (BindJSON P r obj = Err err obj' \<longrightarrow> \<not> intSourceError err))
   \<and> (CanSet fv \<and> Type fv = IntT k \<and> f = Finite m e \<and> is_float64 f \<and> fractional f \<longrightarrow>
        setFieldValue P fieldName fv (decodeAny (JNumber f))
          = Ok (fv\<lparr>Content := VInt k (signed_take_bit (intBits P k - 1) (trunc f))\<rparr>)
        \<and> (signed_take_bit (intBits P k - 1) (trunc f) = trunc f
             \<longleftrightarrow> - (2 ^ (intBits P k - 1)) \<le> trunc f \<and> trunc f < 2 ^ (intBits P k - 1))
        \<and> (k = Int64 \<longrightarrow> setFieldValue P fieldName fv (decodeAny (JNumber f))
                          = Ok (fv\<lparr>Content := VInt k (trunc f)\<rparr>))
        \<and> \<bar>trunc f\<bar> * 2 ^ nat (- e) \<le> \<bar>m\<bar> \<and> \<bar>m\<bar> < (\<bar>trunc f\<bar> + 1) * 2 ^ nat (- e)
        \<and> 0 \<le> trunc f * m \<and> \<bar>trunc f\<bar> < 2 ^ 52)
   \<and> (CanSet fv \<and> Type fv = UintT u \<and> f = Finite m e \<and> is_float64 f \<and> fractional f \<longrightarrow>
        (m < 0 \<longrightarrow> setFieldValue P fieldName fv (decodeAny (JNumber f)) = Err NegativeFloatToUint fv)
        \<and> (0 < m \<longrightarrow>
             setFieldValue P fieldName fv (decodeAny (JNumber f))
               = Ok (fv\<lparr>Content := VUint u (take_bit (uintBits P u) (nat (trunc f)))\<rparr>)
             \<and> (take_bit (uintBits P u) (nat (trunc f)) = nat (trunc f)
                  \<longleftrightarrow> trunc f < 2 ^ uintBits P u)
             \<and> (u = Uint64 \<longrightarrow> setFieldValue P fieldName fv (decodeAny (JNumber f))
                               = Ok (fv\<lparr>Content := VUint u (nat (trunc f))\<rparr>))
             \<and> 0 \<le> trunc f))
   \<and> (Body r = Inr (JObject ms) \<and> map_of (rev ms) (tagName ''json'' fld) = Some (JNumber f)
        \<and> Decode (Body r) = Inr data
        \<and> forEachField pre ''json'' (jsonField P data) {} = Ok (pre', w)
        \<and> Exported fld \<and> f = Finite m e \<and> is_float64 f \<and> fractional f \<longrightarrow>
        (Typ fld = IntT k \<longrightarrow>
           BindJSON P r (pre @ (fld, c) # post)
             = afterWalk
                 (case forEachField post ''json'' (jsonField P data) (insert (Name fld) w) of
                    Panic p \<Rightarrow> Panic p
                  | Err x (post', w') \<Rightarrow>
                      Err x (pre' @ (fld, VInt k (signed_take_bit (intBits P k - 1) (trunc f))) # post', w')
                  | Ok (post', w') \<Rightarrow>
                      Ok (pre' @ (fld, VInt k (signed_take_bit (intBits P k - 1) (trunc f))) # post', w')))
        \<and> (Typ fld = UintT u \<and> 0 < m \<longrightarrow>
           BindJSON P r (pre @ (fld, c) # post)
             = afterWalk
                 (case forEachField post ''json'' (jsonField P data) (insert (Name fld) w) of
                    Panic p \<Rightarrow> Panic p
                  | Err x (post', w') \<Rightarrow>
                      Err x (pre' @ (fld, VUint u (take_bit (uintBits P u) (nat (trunc f)))) # post', w')
                  | Ok (post', w') \<Rightarrow>
                      Ok (pre' @ (fld, VUint u (take_bit (uintBits P u) (nat (trunc f)))) # post', w')))
        \<and> (Typ fld = UintT u \<and> m < 0 \<longrightarrow>
           BindJSON P r (pre @ (fld, c) # post) = Err NegativeFloatToUint (pre' @ (fld, c) # post)))
   \<and> BindJSON examplePlatform
        \<lparr>ParseForm = None, Form = Map.empty, Query = Map.empty,
         Body = Inr (JObject [(''title'', JString ''t''), (''num'', JNumber (Finite 6530219459687219 (- 50)))])\<rparr>
        [(\<lparr>Name = ''Title'', Typ = StringT, Tag = [(''json'', ''title''), (''binding'', ''required'')],
            Exported = True\<rparr>, VString []),
         (\<lparr>Name = ''Num'', Typ = IntT Int', Tag = [(''json'', ''num'')], Exported = True\<rparr>, VInt Int' 0)]
      = Ok [(\<lparr>Name = ''Title'', Typ = StringT, Tag = [(''json'', ''title''), (''binding'', ''required'')],
                Exported = True\<rparr>, VString ''t''),
            (\<lparr>Name = ''Num'', Typ = IntT Int', Tag = [(''json'', ''num'')], Exported = True\<rparr>, VInt Int' 5)]"
proof (intro conjI)
  show "decodeAny (JNumber f) = VFloat Float64 f" by simp
next
  show "intFree (decodeAny j)" by (rule intFree_decodeAny)
next
  show "Decode body = Inr data \<and> data tag = Some v \<longrightarrow> intFree v"
    using Decode_intFree by blast
next
  show "Decode (Body r) = Inr data \<longrightarrow>
        BindJSON P r obj
          = afterWalk (forEachField obj ''json''
              (\<lambda>field fv tag writtenFields.
                 case data tag of
                   None \<Rightarrow> Ok (fv, writtenFields)
                 | Some value \<Rightarrow>
                     if intFree value then writeField P field fv value writtenFields
                     else g field fv value writtenFields) {})
        \<and> (BindJSON P r obj = Err err obj' \<longrightarrow> \<not> intSourceError err)"
  proof (intro impI conjI)
    assume d: "Decode (Body r) = Inr data"
    have "BindJSON P r obj = afterWalk (forEachField obj ''json'' (jsonField P data) {})"
      using d by (simp add: BindJSON_def)
    also have "jsonField P data =
              (\<lambda>field fv tag writtenFields.
                 case data tag of
                   None \<Rightarrow> Ok (fv, writtenFields)
                 | Some value \<Rightarrow>
                     if intFree value then writeField P field fv value writtenFields
                     else g field fv value writtenFields)"
      by (rule jsonField_guard [OF d])
    finally show "BindJSON P r obj
          = afterWalk (forEachField obj ''json''
              (\<lambda>field fv tag writtenFields.
                 case data tag of
                   None \<Rightarrow> Ok (fv, writtenFields)
                 | Some value \<Rightarrow>
                     if intFree value then writeField P field fv value writtenFields
                     else g field fv value writtenFields) {})" .
    assume "BindJSON P r obj = Err err obj'"
    with d show "\<not> intSourceError err" by (rule BindJSON_intFree)
  qed
next
  show "CanSet fv \<and> Type fv = IntT k \<and> f = Finite m e \<and> is_float64 f \<and> fractional f \<longrightarrow>
        setFieldValue P fieldName fv (decodeAny (JNumber f))
          = Ok (fv\<lparr>Content := VInt k (signed_take_bit (intBits P k - 1) (trunc f))\<rparr>)
        \<and> (signed_take_bit (intBits P k - 1) (trunc f) = trunc f
             \<longleftrightarrow> - (2 ^ (intBits P k - 1)) \<le> trunc f \<and> trunc f < 2 ^ (intBits P k - 1))
        \<and> (k = Int64 \<longrightarrow> setFieldValue P fieldName fv (decodeAny (JNumber f))
                          = Ok (fv\<lparr>Content := VInt k (trunc f)\<rparr>))
        \<and> \<bar>trunc f\<bar> * 2 ^ nat (- e) \<le> \<bar>m\<bar> \<and> \<bar>m\<bar> < (\<bar>trunc f\<bar> + 1) * 2 ^ nat (- e)
        \<and> 0 \<le> trunc f * m \<and> \<bar>trunc f\<bar> < 2 ^ 52"
  proof (intro impI conjI)
    assume a: "CanSet fv \<and> Type fv = IntT k \<and> f = Finite m e \<and> is_float64 f \<and> fractional f"
    then have f: "f = Finite m e" and m: "\<bar>m\<bar> < 2 ^ 53" and e: "e < 0" by auto
    from trunc_fractional [OF m e] have small: "\<bar>trunc f\<bar> < 2 ^ 52" using f by simp
    from a have cs: "CanSet fv" and ty: "Type fv = IntT k"
      and fl: "is_float64 (Finite m e)" "fractional (Finite m e)" by auto
    show run: "setFieldValue P fieldName fv (decodeAny (JNumber f))
          = Ok (fv\<lparr>Content := VInt k (signed_take_bit (intBits P k - 1) (trunc f))\<rparr>)"
      unfolding f decodeAny.simps by (rule float_into_int [OF cs ty fl])
    show "signed_take_bit (intBits P k - 1) (trunc f) = trunc f
            \<longleftrightarrow> - (2 ^ (intBits P k - 1)) \<le> trunc f \<and> trunc f < 2 ^ (intBits P k - 1)"
      by (rule signed_take_bit_int_eq_self_iff)
    have "signed_take_bit (intBits P Int64 - 1) (trunc f) = trunc f"
      using small by (simp add: signed_take_bit_int_eq_self_iff abs_less_iff)
    with run show "setFieldValue P fieldName fv (decodeAny (JNumber f)) = Ok (fv\<lparr>Content := VInt k (trunc f)\<rparr>)"
      if "k = Int64"
      using that by simp
    show "\<bar>trunc f\<bar> * 2 ^ nat (- e) \<le> \<bar>m\<bar>" "\<bar>m\<bar> < (\<bar>trunc f\<bar> + 1) * 2 ^ nat (- e)" "0 \<le> trunc f * m"
      using trunc_towards_zero [OF e, of m] f by simp_all
    show "\<bar>trunc f\<bar> < 2 ^ 52" by (rule small)
  qed
next
  show "CanSet fv \<and> Type fv = UintT u \<and> f = Finite m e \<and> is_float64 f \<and> fractional f \<longrightarrow>
        (m < 0 \<longrightarrow> setFieldValue P fieldName fv (decodeAny (JNumber f)) = Err NegativeFloatToUint fv)
        \<and> (0 < m \<longrightarrow>
             setFieldValue P fieldName fv (decodeAny (JNumber f))
               = Ok (fv\<lparr>Content := VUint u (take_bit (uintBits P u) (nat (trunc f)))\<rparr>)
             \<and> (take_bit (uintBits P u) (nat (trunc f)) = nat (trunc f)
                  \<longleftrightarrow> trunc f < 2 ^ uintBits P u)
             \<and> (u = Uint64 \<longrightarrow> setFieldValue P fieldName fv (decodeAny (JNumber f))
                               = Ok (fv\<lparr>Content := VUint u (nat (trunc f))\<rparr>))
             \<and> 0 \<le> trunc f)"
  proof (rule impI)
    assume a: "CanSet fv \<and> Type fv = UintT u \<and> f = Finite m e \<and> is_float64 f \<and> fractional f"
    then have f: "f = Finite m e" and m: "\<bar>m\<bar> < 2 ^ 53" and e: "e < 0" by auto
    from trunc_fractional [OF m e] have small: "\<bar>trunc f\<bar> < 2 ^ 52" using f by simp
    from a have cs: "CanSet fv" and ty: "Type fv = UintT u"
      and fl: "is_float64 (Finite m e)" "fractional (Finite m e)" by auto
    have run: "setFieldValue P fieldName fv (decodeAny (JNumber f))
          = (if m < 0 then Err NegativeFloatToUint fv
             else Ok (fv\<lparr>Content := VUint u (take_bit (uintBits P u) (nat (trunc f)))\<rparr>))"
      unfolding f decodeAny.simps by (rule float_into_uint [OF cs ty fl])
    have neg: "setFieldValue P fieldName fv (decodeAny (JNumber f)) = Err NegativeFloatToUint fv"
      if "m < 0"
      using run that by simp
    have pos: "setFieldValue P fieldName fv (decodeAny (JNumber f))
               = Ok (fv\<lparr>Content := VUint u (take_bit (uintBits P u) (nat (trunc f)))\<rparr>)"
      if "0 < m"
      using run that by simp
    have nn: "0 \<le> trunc f" if "0 < m"
      using that f e by (simp add: sgn_if pos_imp_zdiv_nonneg_iff)
    have fits: "take_bit (uintBits P u) (nat (trunc f)) = nat (trunc f) \<longleftrightarrow> trunc f < 2 ^ uintBits P u"
      if "0 < m"
    proof -
      have "nat (trunc f) < 2 ^ uintBits P u \<longleftrightarrow> trunc f < 2 ^ uintBits P u"
        using nn [OF that] by (simp add: nat_less_iff)
      then show ?thesis by (simp add: take_bit_nat_eq_self_iff)
    qed
    have "take_bit (uintBits P Uint64) (nat (trunc f)) = nat (trunc f)" if "0 < m"
      using fits [OF that] small that
      by (simp add: take_bit_nat_eq_self_iff nat_less_iff nn abs_less_iff)
    then have exact: "setFieldValue P fieldName fv (decodeAny (JNumber f))
                     = Ok (fv\<lparr>Content := VUint u (nat (trunc f))\<rparr>)"
      if "0 < m" "u = Uint64"
      using pos that by simp
    from neg pos nn fits exact
    show "(m < 0 \<longrightarrow> setFieldValue P fieldName fv (decodeAny (JNumber f)) = Err NegativeFloatToUint fv)
        \<and> (0 < m \<longrightarrow>
             setFieldValue P fieldName fv (decodeAny (JNumber f))
               = Ok (fv\<lparr>Content := VUint u (take_bit (uintBits P u) (nat (trunc f)))\<rparr>)
             \<and> (take_bit (uintBits P u) (nat (trunc f)) = nat (trunc f)
                  \<longleftrightarrow> trunc f < 2 ^ uintBits P u)
             \<and> (u = Uint64 \<longrightarrow> setFieldValue P fieldName fv (decodeAny (JNumber f))
                               = Ok (fv\<lparr>Content := VUint u (nat (trunc f))\<rparr>))
             \<and> 0 \<le> trunc f)"
      by blast
  qed
next
  show "Body r = Inr (JObject ms) \<and> map_of (rev ms) (tagName ''json'' fld) = Some (JNumber f)
        \<and> Decode (Body r) = Inr data
        \<and> forEachField pre ''json'' (jsonField P data) {} = Ok (pre', w)
        \<and> Exported fld \<and> f = Finite m e \<and> is_float64 f \<and> fractional f \<longrightarrow>
        (Typ fld = IntT k \<longrightarrow>
           BindJSON P r (pre @ (fld, c) # post)
             = afterWalk
                 (case forEachField post ''json'' (jsonField P data) (insert (Name fld) w) of
                    Panic p \<Rightarrow> Panic p
                  | Err x (post', w') \<Rightarrow>
                      Err x (pre' @ (fld, VInt k (signed_take_bit (intBits P k - 1) (trunc f))) # post', w')
                  | Ok (post', w') \<Rightarrow>
                      Ok (pre' @ (fld, VInt k (signed_take_bit (intBits P k - 1) (trunc f))) # post', w')))
        \<and> (Typ fld = UintT u \<and> 0 < m \<longrightarrow>
           BindJSON P r (pre @ (fld, c) # post)
             = afterWalk
                 (case forEachField post ''json'' (jsonField P data) (insert (Name fld) w) of
                    Panic p \<Rightarrow> Panic p
                  | Err x (post', w') \<Rightarrow>
                      Err x (pre' @ (fld, VUint u (take_bit (uintBits P u) (nat (trunc f)))) # post', w')
                  | Ok (post', w') \<Rightarrow>
                      Ok (pre' @ (fld, VUint u (take_bit (uintBits P u) (nat (trunc f)))) # post', w')))
        \<and> (Typ fld = UintT u \<and> m < 0 \<longrightarrow>
           BindJSON P r (pre @ (fld, c) # post) = Err NegativeFloatToUint (pre' @ (fld, c) # post))"
  proof (intro impI conjI)
    assume a: "Body r = Inr (JObject ms) \<and> map_of (rev ms) (tagName ''json'' fld) = Some (JNumber f)
        \<and> Decode (Body r) = Inr data
        \<and> forEachField pre ''json'' (jsonField P data) {} = Ok (pre', w)
        \<and> Exported fld \<and> f = Finite m e \<and> is_float64 f \<and> fractional f"
    then have d: "Decode (Body r) = Inr data"
      and walk: "forEachField pre ''json'' (jsonField P data) {} = Ok (pre', w)"
      and fl: "is_float64 (Finite m e)" "fractional (Finite m e)" and f: "f = Finite m e"
      by auto
    from a Decode_member [of "Body r" ms "tagName ''json'' fld" "JNumber f"]
    have v: "data (tagName ''json'' fld) = Some (VFloat Float64 (Finite m e))"
      by auto
    have s: "CanSet (FieldValue (fld, c))" using a by (simp add: FieldValue_def)
    {
      assume t: "Typ fld = IntT k"
      then have ty: "Type (FieldValue (fld, c)) = IntT k" by (simp add: FieldValue_def)
      let ?x = "VInt k (signed_take_bit (intBits P k - 1) (trunc (Finite m e)))"
      have "Content ((FieldValue (fld, c))\<lparr>Content := ?x\<rparr>) = ?x" by simp
      from BindJSON_writes [OF d walk v float_into_int [OF s ty fl] this]
      show "BindJSON P r (pre @ (fld, c) # post)
             = afterWalk
                 (case forEachField post ''json'' (jsonField P data) (insert (Name fld) w) of
                    Panic p \<Rightarrow> Panic p
                  | Err x (post', w') \<Rightarrow>
                      Err x (pre' @ (fld, VInt k (signed_take_bit (intBits P k - 1) (trunc f))) # post', w')
                  | Ok (post', w') \<Rightarrow>
                      Ok (pre' @ (fld, VInt k (signed_take_bit (intBits P k - 1) (trunc f))) # post', w'))"
        unfolding f .
    }
    {
      assume t: "Typ fld = UintT u \<and> 0 < m"
      then have ty: "Type (FieldValue (fld, c)) = UintT u" by (simp add: FieldValue_def)
      let ?x = "VUint u (take_bit (uintBits P u) (nat (trunc (Finite m e))))"
      have run: "setFieldValue P (Field (Name fld)) (FieldValue (fld, c)) (VFloat Float64 (Finite m e))
              = Ok ((FieldValue (fld, c))\<lparr>Content := ?x\<rparr>)"
        using t unfolding float_into_uint [OF s ty fl] by simp
      have "Content ((FieldValue (fld, c))\<lparr>Content := ?x\<rparr>) = ?x" by simp
      from BindJSON_writes [OF d walk v run this]
      show "BindJSON P r (pre @ (fld, c) # post)
             = afterWalk
                 (case forEachField post ''json'' (jsonField P data) (insert (Name fld) w) of
                    Panic p \<Rightarrow> Panic p
                  | Err x (post', w') \<Rightarrow>
                      Err x (pre' @ (fld, VUint u (take_bit (uintBits P u) (nat (trunc f)))) # post', w')
                  | Ok (post', w') \<Rightarrow>
                      Ok (pre' @ (fld, VUint u (take_bit (uintBits P u) (nat (trunc f)))) # post', w'))"
        unfolding f .
    }
    {
      assume t: "Typ fld = UintT u \<and> m < 0"
      then have ty: "Type (FieldValue (fld, c)) = UintT u" by (simp add: FieldValue_def)
      have "setFieldValue P (Field (Name fld)) (FieldValue (fld, c)) (VFloat Float64 (Finite m e))
              = Err NegativeFloatToUint (FieldValue (fld, c))"
        using t unfolding float_into_uint [OF s ty fl] by simp
      from BindJSON_fails [OF d walk v this]
      show "BindJSON P r (pre @ (fld, c) # post) = Err NegativeFloatToUint (pre' @ (fld, c) # post)" .
    }
  qed
qed (simp add: eval_defs bind_defs examplePlatform_def)

theorem json_numbers_are_floats_witness:
  "setFieldValue examplePlatform (Field ''Num'')
      \<lparr>Type = IntT Int', CanSet = True, Content = VInt Int' 0\<rparr>
      (decodeAny (JNumber (Finite (- 6530219459687219) (- 50))))
    = Ok \<lparr>Type = IntT Int', CanSet = True, Content = VInt Int' (- 5)\<rparr>
   \<and> setFieldValue examplePlatform (Field ''Num'')
      \<lparr>Type = IntT Int64, CanSet = True, Content = VInt Int64 0\<rparr>
      (decodeAny (JNumber (Finite (- 6530219459687219) (- 50))))
    = Ok \<lparr>Type = IntT Int64, CanSet = True, Content = VInt Int64 (- 5)\<rparr>
   \<and> intFree (VSlice InterfaceT (Some [VFloat Float64 (Finite 3 0), VString ''x'']))
   \<and> setFieldValue examplePlatform (Field ''Count'')
      \<lparr>Type = UintT Uint8, CanSet = True, Content = VUint Uint8 0\<rparr>
      (decodeAny (JNumber (Finite (- 1) (- 1))))
    = Err NegativeFloatToUint \<lparr>Type = UintT Uint8, CanSet = True, Content = VUint Uint8 0\<rparr>
   \<and> setFieldValue examplePlatform (Field ''Count'')
      \<lparr>Type = UintT Uint8, CanSet = True, Content = VUint Uint8 0\<rparr>
      (decodeAny (JNumber (Finite 6530219459687219 (- 50))))
    = Ok \<lparr>Type = UintT Uint8, CanSet = True, Content = VUint Uint8 5\<rparr>
   \<and> setFieldValue examplePlatform (Field ''Count'')
      \<lparr>Type = UintT Uint64, CanSet = True, Content = VUint Uint64 0\<rparr>
      (decodeAny (JNumber (Finite 6530219459687219 (- 50))))
    = Ok \<lparr>Type = UintT Uint64, CanSet = True, Content = VUint Uint64 5\<rparr>
   \<and> BindJSON examplePlatform
        \<lparr>ParseForm = None, Form = Map.empty, Query = Map.empty,
         Body = Inr (JObject [(''title'', JString ''t''), (''num'', JNumber (Finite (- 6530219459687219) (- 50)))])\<rparr>
        [(\<lparr>Name = ''Title'', Typ = StringT, Tag = [(''json'', ''title'')], Exported = True\<rparr>, VString []),
         (\<lparr>Name = ''Num'', Typ = IntT Int', Tag = [(''json'', ''num'')], Exported = True\<rparr>, VInt Int' 0),
         (\<lparr>Name = ''Note'', Typ = StringT, Tag = [(''binding'', ''required'')], Exported = True\<rparr>, VString [])]
      = Err (IsRequired ''Note'')
         [(\<lparr>Name = ''Title'', Typ = StringT, Tag = [(''json'', ''title'')], Exported = True\<rparr>, VString ''t''),
          (\<lparr>Name = ''Num'', Typ = IntT Int', Tag = [(''json'', ''num'')], Exported = True\<rparr>, VInt Int' (- 5)),
          (\<lparr>Name = ''Note'', Typ = StringT, Tag = [(''binding'', ''required'')], Exported = True\<rparr>, VString [])]
   \<and> BindJSON examplePlatform
        \<lparr>ParseForm = None, Form = Map.empty, Query = Map.empty,
         Body = Inr (JObject [(''title'', JString ''t''), (''num'', JNumber (Finite 6530219459687219 (- 50)))])\<rparr>
        [(\<lparr>Name = ''Title'', Typ = StringT, Tag = [(''json'', ''title'')], Exported = True\<rparr>, VString []),
         (\<lparr>Name = ''Num'', Typ = UintT Uint8, Tag = [(''json'', ''num'')], Exported = True\<rparr>, VUint Uint8 0)]
      = Ok
         [(\<lparr>Name = ''Title'', Typ = StringT, Tag = [(''json'', ''title'')], Exported = True\<rparr>, VString ''t''),
          (\<lparr>Name = ''Num'', Typ = UintT Uint8, Tag = [(''json'', ''num'')], Exported = True\<rparr>, VUint Uint8 5)]
   \<and> BindJSON examplePlatform
        \<lparr>ParseForm = None, Form = Map.empty, Query = Map.empty,
         Body = Inr (JObject [(''title'', JString ''t''), (''num'', JNumber (Finite (- 1) (- 1)))])\<rparr>
        [(\<lparr>Name = ''Title'', Typ = StringT, Tag = [(''json'', ''title'')], Exported = True\<rparr>, VString []),
         (\<lparr>Name = ''Num'', Typ = UintT Uint8, Tag = [(''json'', ''num'')], Exported = True\<rparr>, VUint Uint8 0),
         (\<lparr>Name = ''Note'', Typ = StringT, Tag = [(''binding'', ''required'')], Exported = True\<rparr>, VString [])]
      = Err NegativeFloatToUint
         [(\<lparr>Name = ''Title'', Typ = StringT, Tag = [(''json'', ''title'')], Exported = True\<rparr>, VString ''t''),
          (\<lparr>Name = ''Num'', Typ = UintT Uint8, Tag = [(''json'', ''num'')], Exported = True\<rparr>, VUint Uint8 0),
          (\<lparr>Name = ''Note'', Typ = StringT, Tag = [(''binding'', ''required'')], Exported = True\<rparr>, VString [])]
   \<and> \<not> intSourceError (CannotAssignFloat KString)"
proof -
  let ?f = "Finite (- 6530219459687219) (- 50)"
  let ?p = "Finite 6530219459687219 (- 50)"
  let ?h = "Finite (- 1) (- 1)"
  let ?fw = "\<lparr>Type = IntT Int64, CanSet = True, Content = VInt Int64 0\<rparr>"
  let ?fv = "\<lparr>Type = IntT Int', CanSet = True, Content = VInt Int' 0\<rparr>"
  let ?u8 = "\<lparr>Type = UintT Uint8, CanSet = True, Content = VUint Uint8 0\<rparr>"
  let ?u64 = "\<lparr>Type = UintT Uint64, CanSet = True, Content = VUint Uint64 0\<rparr>"
  let ?data = "map_of (rev (map (\<lambda>m. (fst m, decodeAny (snd m))) [(''list'', JArray [JNumber (Finite 3 0), JString ''x''])]))"
  let ?title = "\<lparr>Name = ''Title'', Typ = StringT, Tag = [(''json'', ''title'')], Exported = True\<rparr>"
  let ?num = "\<lparr>Name = ''Num'', Typ = IntT Int', Tag = [(''json'', ''num'')], Exported = True\<rparr>"
  let ?unum = "\<lparr>Name = ''Num'', Typ = UintT Uint8, Tag = [(''json'', ''num'')], Exported = True\<rparr>"
  let ?note = "\<lparr>Name = ''Note'', Typ = StringT, Tag = [(''binding'', ''required'')], Exported = True\<rparr>"
  let ?pre = "[(?title, VString [])]"
  let ?pre' = "[(?title, VString ''t'')]"
  let ?post = "[(?note, VString [])]"
  have t: "trunc ?f = - 5" "trunc ?p = 5" by simp_all
  have hv: "CanSet ?fv \<and> Type ?fv = IntT Int' \<and> ?f = Finite (- 6530219459687219) (- 50)
           \<and> is_float64 ?f \<and> fractional ?f"
    by simp
  from json_numbers_are_floats [where f = ?f and fv = ?fv and k = Int' and m = "- 6530219459687219"
      and e = "- 50" and P = examplePlatform and fieldName = "Field ''Num''",
      THEN conjunct2, THEN conjunct2, THEN conjunct2, THEN conjunct2, THEN conjunct1, THEN mp, OF hv]
  have "setFieldValue examplePlatform (Field ''Num'') ?fv (decodeAny (JNumber ?f))
          = Ok (?fv\<lparr>Content := VInt Int' (signed_take_bit (intBits examplePlatform Int' - 1) (trunc ?f))\<rparr>)"
    by blast
  then have a: "setFieldValue examplePlatform (Field ''Num'') ?fv (decodeAny (JNumber ?f))
    = Ok \<lparr>Type = IntT Int', CanSet = True, Content = VInt Int' (- 5)\<rparr>"
    unfolding t by (simp add: examplePlatform_def)
  have d: "Decode (Inr (JObject [(''list'', JArray [JNumber (Finite 3 0), JString ''x''])])) = Inr ?data
           \<and> ?data ''list'' = Some (VSlice InterfaceT (Some [VFloat Float64 (Finite 3 0), VString ''x'']))"
    by (simp add: Decode_def)
  from json_numbers_are_floats [where body = "Inr (JObject [(''list'', JArray [JNumber (Finite 3 0), JString ''x''])])"
      and data = ?data and tag = "''list''"
      and v = "VSlice InterfaceT (Some [VFloat Float64 (Finite 3 0), VString ''x''])",
      THEN conjunct2, THEN conjunct2, THEN conjunct1, THEN mp, OF d]
  have b: "intFree (VSlice InterfaceT (Some [VFloat Float64 (Finite 3 0), VString ''x'']))"
    by blast
  have hw: "CanSet ?fw \<and> Type ?fw = IntT Int64 \<and> ?f = Finite (- 6530219459687219) (- 50)
           \<and> is_float64 ?f \<and> fractional ?f"
    by simp
  from json_numbers_are_floats [where f = ?f and fv = ?fw and k = Int64 and m = "- 6530219459687219"
      and e = "- 50" and P = examplePlatform and fieldName = "Field ''Num''",
      THEN conjunct2, THEN conjunct2, THEN conjunct2, THEN conjunct2, THEN conjunct1, THEN mp, OF hw]
  have "setFieldValue examplePlatform (Field ''Num'') ?fw (decodeAny (JNumber ?f))
          = Ok (?fw\<lparr>Content := VInt Int64 (trunc ?f)\<rparr>)"
    by blast
  then have c: "setFieldValue examplePlatform (Field ''Num'') ?fw (decodeAny (JNumber ?f))
    = Ok \<lparr>Type = IntT Int64, CanSet = True, Content = VInt Int64 (- 5)\<rparr>"
    unfolding t by simp
  have hn: "CanSet ?u8 \<and> Type ?u8 = UintT Uint8 \<and> ?h = Finite (- 1) (- 1) \<and> is_float64 ?h \<and> fractional ?h"
    "(- 1 :: int) < 0"
    by simp_all
  from json_numbers_are_floats [where f = ?h and fv = ?u8 and u = Uint8 and m = "- 1"
      and e = "- 1" and P = examplePlatform and fieldName = "Field ''Count''",
      THEN conjunct2, THEN conjunct2, THEN conjunct2, THEN conjunct2, THEN conjunct2, THEN conjunct1, THEN mp, OF hn(1)] hn(2)
  have n: "setFieldValue examplePlatform (Field ''Count'') ?u8 (decodeAny (JNumber ?h))
          = Err NegativeFloatToUint ?u8"
    by blast
  have hp: "CanSet ?u8 \<and> Type ?u8 = UintT Uint8 \<and> ?p = Finite 6530219459687219 (- 50)
           \<and> is_float64 ?p \<and> fractional ?p"
    "(0 :: int) < 6530219459687219"
    by simp_all
  from json_numbers_are_floats [where f = ?p and fv = ?u8 and u = Uint8 and m = "6530219459687219"
      and e = "- 50" and P = examplePlatform and fieldName = "Field ''Count''",
      THEN conjunct2, THEN conjunct2, THEN conjunct2, THEN conjunct2, THEN conjunct2, THEN conjunct1, THEN mp, OF hp(1)] hp(2)
  have "setFieldValue examplePlatform (Field ''Count'') ?u8 (decodeAny (JNumber ?p))
          = Ok (?u8\<lparr>Content := VUint Uint8 (take_bit (uintBits examplePlatform Uint8) (nat (trunc ?p)))\<rparr>)"
    by blast
  then have p8: "setFieldValue examplePlatform (Field ''Count'') ?u8 (decodeAny (JNumber ?p))
    = Ok \<lparr>Type = UintT Uint8, CanSet = True, Content = VUint Uint8 5\<rparr>"
    unfolding t by simp
  have hq: "CanSet ?u64 \<and> Type ?u64 = UintT Uint64 \<and> ?p = Finite 6530219459687219 (- 50)
           \<and> is_float64 ?p \<and> fractional ?p"
    "(0 :: int) < 6530219459687219"
    by simp_all
  from json_numbers_are_floats [where f = ?p and fv = ?u64 and u = Uint64 and m = "6530219459687219"
      and e = "- 50" and P = examplePlatform and fieldName = "Field ''Count''",
      THEN conjunct2, THEN conjunct2, THEN conjunct2, THEN conjunct2, THEN conjunct2, THEN conjunct1, THEN mp, OF hq(1)] hq(2)
  have "setFieldValue examplePlatform (Field ''Count'') ?u64 (decodeAny (JNumber ?p))
          = Ok (?u64\<lparr>Content := VUint Uint64 (nat (trunc ?p))\<rparr>)"
    by blast
  then have p64: "setFieldValue examplePlatform (Field ''Count'') ?u64 (decodeAny (JNumber ?p))
    = Ok \<lparr>Type = UintT Uint64, CanSet = True, Content = VUint Uint64 5\<rparr>"
    unfolding t by simp
  let ?r1 = "\<lparr>ParseForm = None, Form = Map.empty, Query = Map.empty,
       Body = Inr (JObject [(''title'', JString ''t''), (''num'', JNumber ?f)])\<rparr>"
  let ?d1 = "map_of (rev (map (\<lambda>m. (fst m, decodeAny (snd m)))
                 [(''title'', JString ''t''), (''num'', JNumber ?f)]))"
  let ?r2 = "\<lparr>ParseForm = None, Form = Map.empty, Query = Map.empty,
       Body = Inr (JObject [(''title'', JString ''t''), (''num'', JNumber ?p)])\<rparr>"
  let ?d2 = "map_of (rev (map (\<lambda>m. (fst m, decodeAny (snd m)))
                 [(''title'', JString ''t''), (''num'', JNumber ?p)]))"
  let ?r3 = "\<lparr>ParseForm = None, Form = Map.empty, Query = Map.empty,
       Body = Inr (JObject [(''title'', JString ''t''), (''num'', JNumber ?h)])\<rparr>"
  let ?d3 = "map_of (rev (map (\<lambda>m. (fst m, decodeAny (snd m)))
                 [(''title'', JString ''t''), (''num'', JNumber ?h)]))"
  have h1: "Body ?r1 = Inr (JObject [(''title'', JString ''t''), (''num'', JNumber ?f)])
      \<and> map_of (rev [(''title'', JString ''t''), (''num'', JNumber ?f)]) (tagName ''json'' ?num)
          = Some (JNumber ?f)
      \<and> Decode (Body ?r1) = Inr ?d1
      \<and> forEachField ?pre ''json'' (jsonField examplePlatform ?d1) {} = Ok (?pre', {''Title''})
      \<and> Exported ?num \<and> ?f = Finite (- 6530219459687219) (- 50) \<and> is_float64 ?f \<and> fractional ?f"
    by (simp add: eval_defs bind_defs)
  have ty1: "Typ ?num = IntT Int'" by simp
  note i1 = json_numbers_are_floats [where r = ?r1 and ms = "[(''title'', JString ''t''), (''num'', JNumber ?f)]"
      and fld = ?num and f = ?f and data = ?d1 and pre = ?pre and pre' = ?pre' and w = "{''Title''}"
      and m = "- 6530219459687219" and e = "- 50" and P = examplePlatform and k = Int'
      and c = "VInt Int' 0" and post = ?post,
      THEN conjunct2, THEN conjunct2, THEN conjunct2, THEN conjunct2, THEN conjunct2, THEN conjunct2,
      THEN conjunct1, THEN mp, OF h1, THEN conjunct1, THEN mp, OF ty1]
  have f1: "BindJSON examplePlatform ?r1 (?pre @ (?num, VInt Int' 0) # ?post)
      = Err (IsRequired ''Note'') (?pre' @ (?num, VInt Int' (- 5)) # ?post)"
    unfolding i1 t by (simp add: eval_defs bind_defs examplePlatform_def)
  have h2: "Body ?r2 = Inr (JObject [(''title'', JString ''t''), (''num'', JNumber ?p)])
      \<and> map_of (rev [(''title'', JString ''t''), (''num'', JNumber ?p)]) (tagName ''json'' ?unum)
          = Some (JNumber ?p)
      \<and> Decode (Body ?r2) = Inr ?d2
      \<and> forEachField ?pre ''json'' (jsonField examplePlatform ?d2) {} = Ok (?pre', {''Title''})
      \<and> Exported ?unum \<and> ?p = Finite 6530219459687219 (- 50) \<and> is_float64 ?p \<and> fractional ?p"
    by (simp add: eval_defs bind_defs)
  have ty2: "Typ ?unum = UintT Uint8 \<and> (0 :: int) < 6530219459687219" by simp
  note i2 = json_numbers_are_floats [where r = ?r2 and ms = "[(''title'', JString ''t''), (''num'', JNumber ?p)]"
      and fld = ?unum and f = ?p and data = ?d2 and pre = ?pre and pre' = ?pre' and w = "{''Title''}"
      and m = "6530219459687219" and e = "- 50" and P = examplePlatform and u = Uint8
      and c = "VUint Uint8 0" and post = "[]",
      THEN conjunct2, THEN conjunct2, THEN conjunct2, THEN conjunct2, THEN conjunct2, THEN conjunct2,
      THEN conjunct1, THEN mp, OF h2, THEN conjunct2, THEN conjunct1, THEN mp, OF ty2]
  have f2: "BindJSON examplePlatform ?r2 (?pre @ (?unum, VUint Uint8 0) # [])
      = Ok (?pre' @ (?unum, VUint Uint8 5) # [])"
    unfolding i2 t by (simp add: eval_defs bind_defs examplePlatform_def)
  have h3: "Body ?r3 = Inr (JObject [(''title'', JString ''t''), (''num'', JNumber ?h)])
      \<and> map_of (rev [(''title'', JString ''t''), (''num'', JNumber ?h)]) (tagName ''json'' ?unum)
          = Some (JNumber ?h)
      \<and> Decode (Body ?r3) = Inr ?d3
      \<and> forEachField ?pre ''json'' (jsonField examplePlatform ?d3) {} = Ok (?pre', {''Title''})
      \<and> Exported ?unum \<and> ?h = Finite (- 1) (- 1) \<and> is_float64 ?h \<and> fractional ?h"
    by (simp add: eval_defs bind_defs)
  have ty3: "Typ ?unum = UintT Uint8 \<and> (- 1 :: int) < 0" by simp
  note f3 = json_numbers_are_floats [where r = ?r3 and ms = "[(''title'', JString ''t''), (''num'', JNumber ?h)]"
      and fld = ?unum and f = ?h and data = ?d3 and pre = ?pre and pre' = ?pre' and w = "{''Title''}"
      and m = "- 1" and e = "- 1" and P = examplePlatform and u = Uint8
      and c = "VUint Uint8 0" and post = ?post,
      THEN conjunct2, THEN conjunct2, THEN conjunct2, THEN conjunct2, THEN conjunct2, THEN conjunct2,
      THEN conjunct1, THEN mp, OF h3, THEN conjunct2, THEN conjunct2, THEN mp, OF ty3]
  let ?r4 = "\<lparr>ParseForm = None, Form = Map.empty, Query = Map.empty,
       Body = Inr (JObject [(''title'', JNumber (Finite 11 (- 1)))])\<rparr>"
  let ?d4 = "map_of (rev (map (\<lambda>m. (fst m, decodeAny (snd m))) [(''title'', JNumber (Finite 11 (- 1)))]))"
  have h4: "Decode (Body ?r4) = Inr ?d4" by (simp add: Decode_def)
  have e4: "BindJSON examplePlatform ?r4 ?pre = Err (CannotAssignFloat KString) ?pre"
    by (simp add: eval_defs bind_defs)
  note g = json_numbers_are_floats [where r = ?r4 and data = ?d4 and P = examplePlatform and obj = ?pre
      and err = "CannotAssignFloat KString" and obj' = ?pre,
      THEN conjunct2, THEN conjunct2, THEN conjunct2, THEN conjunct1, THEN mp, OF h4,
      THEN conjunct2, THEN mp, OF e4]
  from a c b n p8 p64 f1 f2 f3 g show ?thesis by simp
qed

text \<open>
  The claim as it stands has every fractional number succeed, by truncation. A field that
  cannot be set (an unexported field) gets the error \<^verbatim>\<open>field num is not settable\<close>
  for the body \<^verbatim>\<open>{"num": 5.8}\<close>. A field of type \<^verbatim>\<open>uint\<close> gets the error
  \<^verbatim>\<open>cannot assign negative float to uint\<close> for the body \<^verbatim>\<open>{"count": -0.5}\<close>. And
  what a field receives is the truncation converted to the type of the field: 300.5
  truncates to 300 and leaves 44 in an \<^verbatim>\<open>int8\<close> field.
\<close>

theorem json_numbers_are_floats_counterexample:
  "BindJSON examplePlatform
        \<lparr>ParseForm = None, Form = Map.empty, Query = Map.empty,
         Body = Inr (JObject [(''num'', JNumber (Finite 6530219459687219 (- 50)))])\<rparr>
        [(\<lparr>Name = ''num'', Typ = IntT Int', Tag = [], Exported = False\<rparr>, VInt Int' 0)]
      = Err (NotSettable (Field ''num''))
          [(\<lparr>Name = ''num'', Typ = IntT Int', Tag = [], Exported = False\<rparr>, VInt Int' 0)]
   \<and> BindJSON examplePlatform
        \<lparr>ParseForm = None, Form = Map.empty, Query = Map.empty,
         Body = Inr (JObject [(''count'', JNumber (Finite (- 1) (- 1)))])\<rparr>
        [(\<lparr>Name = ''Count'', Typ = UintT Uint, Tag = [(''json'', ''count'')], Exported = True\<rparr>, VUint Uint 0)]
      = Err NegativeFloatToUint
          [(\<lparr>Name = ''Count'', Typ = UintT Uint, Tag = [(''json'', ''count'')], Exported = True\<rparr>, VUint Uint 0)]
   \<and> trunc (Finite 601 (- 1)) = 300
   \<and> setFieldValue examplePlatform (Field ''Num'')
        \<lparr>Type = IntT Int8, CanSet = True, Content = VInt Int8 0\<rparr>
        (decodeAny (JNumber (Finite 601 (- 1))))
      = Ok \<lparr>Type = IntT Int8, CanSet = True, Content = VInt Int8 44\<rparr>"
  by (simp add: eval_defs bind_defs)

end
